theory Spec2Isabelle
  imports Main "HOL-Library.Code_Target_Numeral"
begin

section \<open>Python values used by the scheduler\<close>

text \<open>
  The handlers of \<^verbatim>\<open>lambda_functions/executor/executor_handler.py\<close> and
  \<^verbatim>\<open>lambda_functions/api/api_handler.py\<close> work on JSON values: what \<^verbatim>\<open>json.loads\<close>
  returns for a request body, and what boto3 reads back from a DynamoDB item. A
  number of a request body is an \<^verbatim>\<open>int\<close> or a \<^verbatim>\<open>float\<close>; a number read from the table
  is a \<^verbatim>\<open>Decimal\<close>, written \<open>JInt\<close> too, since the table holds no float (boto3
  refuses to store one). A float is \<open>Finite m e\<close> for \<open>m * 2 ^ e\<close>, an infinity (\<open>True\<close>:
  the negative one) or NaN, all of which \<^verbatim>\<open>json.loads\<close> accepts. A string is its UTF-8
  text. An object is the list of its members, looked up from the front.
\<close>

datatype pyfloat =
    Finite int int
  | Infinite bool
  | NaN

datatype json =
    JNull
  | JBool bool
  | JInt int
  | JFloat pyfloat
  | JStr string
  | JArr "json list"
  | JObj "(string \<times> json) list"

type_synonym dict = "(string \<times> json) list"

text \<open>\<^verbatim>\<open>d.get(k)\<close>: \<open>None\<close> when the key is absent.\<close>

definition dict_get :: "dict \<Rightarrow> string \<Rightarrow> json option" where
  "dict_get d k = map_of d k"

text \<open>Python truthiness, as \<^verbatim>\<open>if not url\<close> uses it; a float \<open>m * 2 ^ e\<close> is zero when
  \<open>m\<close> is.\<close>

fun truthy :: "json \<Rightarrow> bool" where
  "truthy JNull = False"
| "truthy (JBool b) = b"
| "truthy (JInt i) = (i \<noteq> 0)"
| "truthy (JFloat (Finite m e)) = (m \<noteq> 0)"
| "truthy (JFloat (Infinite neg)) = True"
| "truthy (JFloat NaN) = True"
| "truthy (JStr s) = (s \<noteq> [])"
| "truthy (JArr xs) = (xs \<noteq> [])"
| "truthy (JObj kvs) = (kvs \<noteq> [])"

text \<open>
  The name Python prints for the type of a value: of a request body (\<open>type_name\<close>),
  and of a value read from the table, where a number is a \<^verbatim>\<open>Decimal\<close>
  (\<open>stored_type_name\<close>).
\<close>

fun type_name :: "json \<Rightarrow> string" where
  "type_name JNull = ''NoneType''"
| "type_name (JBool b) = ''bool''"
| "type_name (JInt i) = ''int''"
| "type_name (JFloat f) = ''float''"
| "type_name (JStr s) = ''str''"
| "type_name (JArr xs) = ''list''"
| "type_name (JObj kvs) = ''dict''"

definition stored_type_name :: "json \<Rightarrow> string" where
  "stored_type_name v = (case v of JInt i \<Rightarrow> ''decimal.Decimal'' | _ \<Rightarrow> type_name v)"

text \<open>
  Exceptions are values. A constructor carries the text that \<^verbatim>\<open>str(e)\<close> gives, but for
  \<open>KeyError\<close> (the missing key) and \<open>InvalidIsoformat\<close> (the \<^verbatim>\<open>ValueError\<close> of
  \<^verbatim>\<open>datetime.fromisoformat\<close>, carrying the rejected string). \<open>ClientError\<close> is
  botocore's (an error answer of the service), \<open>RequestException\<close> stands for whatever
  a call of the \<^verbatim>\<open>requests\<close> library raises (its \<^verbatim>\<open>HTTPError\<close> included),
  \<open>DecimalException\<close> for the signals of the \<^verbatim>\<open>decimal\<close> module, \<open>JSONDecodeError\<close> is a
  \<^verbatim>\<open>ValueError\<close> too, and \<open>OtherException\<close> is any other exception (of botocore when it
  gets no answer from the service, of the interpreter).
\<close>

datatype error =
    ValueError string
  | InvalidIsoformat string
  | JSONDecodeError string
  | KeyError string
  | AttributeError string
  | TypeError string
  | OverflowError string
  | DecimalException string
  | ClientError string
  | RequestException string
  | OtherException string

definition apostrophe :: string where
  "apostrophe = [CHR 0x27]"

text \<open>The \<^verbatim>\<open>AttributeError\<close> of \<^verbatim>\<open>value.name\<close> on a value of a type without that attribute.\<close>

definition no_attribute :: "string \<Rightarrow> string \<Rightarrow> error" where
  "no_attribute type_text name =
     AttributeError (apostrophe @ type_text @ apostrophe @ '' object has no attribute '' @
                     apostrophe @ name @ apostrophe)"

subsection \<open>Strings\<close>

text \<open>
  \<^verbatim>\<open>s.replace(old, new)\<close> for a non-empty \<open>old\<close>: every non-overlapping occurrence,
  left to right. The counter is the number of characters of a match still to skip.
\<close>

fun replace_from :: "string \<Rightarrow> string \<Rightarrow> nat \<Rightarrow> string \<Rightarrow> string" where
  "replace_from old new k [] = []"
| "replace_from old new (Suc k) (c # cs) = replace_from old new k cs"
| "replace_from old new 0 (c # cs) =
     (if take (length old) (c # cs) = old
      then new @ replace_from old new (length old - 1) cs
      else c # replace_from old new 0 cs)"

definition str_replace :: "string \<Rightarrow> string \<Rightarrow> string \<Rightarrow> string" where
  "str_replace old new s = replace_from old new 0 s"

text \<open>\<^verbatim>\<open>k in s\<close> for two strings: \<open>k\<close> occurs in \<open>s\<close>.\<close>

fun is_substring :: "string \<Rightarrow> string \<Rightarrow> bool" where
  "is_substring k [] = (k = [])"
| "is_substring k (c # cs) = (if take (length k) (c # cs) = k then True else is_substring k cs)"

text \<open>
  The order DynamoDB compares string keys in (\<^verbatim>\<open>#run_at <= :current_time\<close>): byte by
  byte, a proper prefix first.
\<close>

fun str_le :: "string \<Rightarrow> string \<Rightarrow> bool" where
  "str_le [] t = True"
| "str_le (c # cs) [] = False"
| "str_le (c # cs) (d # ds) =
     (if c = d then str_le cs ds else (of_char c :: nat) < of_char d)"

text \<open>Decimal digits: \<^verbatim>\<open>%0wd\<close> for a value below \<open>10 ^ w\<close>, and \<^verbatim>\<open>%d\<close>.\<close>

definition digit_char :: "nat \<Rightarrow> char" where
  "digit_char n = ''0123456789'' ! (n mod 10)"

primrec pad :: "nat \<Rightarrow> nat \<Rightarrow> string" where
  "pad 0 n = []"
| "pad (Suc w) n = pad w (n div 10) @ [digit_char n]"

fun show_nat :: "nat \<Rightarrow> string" where
  "show_nat n = (if n < 10 then [digit_char n] else show_nat (n div 10) @ [digit_char n])"

definition show_int :: "int \<Rightarrow> string" where
  "show_int i = (if i < 0 then ''-'' @ show_nat (nat (- i)) else show_nat (nat i))"

definition digit_val :: "char \<Rightarrow> nat option" where
  "digit_val c = map_of (zip ''0123456789'' [0, 1, 2, 3, 4, 5, 6, 7, 8, 9]) c"

fun parse_acc :: "nat \<Rightarrow> string \<Rightarrow> nat option" where
  "parse_acc a [] = Some a"
| "parse_acc a (c # cs) =
     (case digit_val c of None \<Rightarrow> None | Some d \<Rightarrow> parse_acc (10 * a + d) cs)"

definition parse_digits :: "string \<Rightarrow> nat option" where
  "parse_digits s = (if s = [] then None else parse_acc 0 s)"

text \<open>The first \<open>n\<close> characters of \<open>s\<close> read as a number; \<open>None\<close> when \<open>s\<close> is shorter
  or one of them is not a digit.\<close>

definition digits :: "nat \<Rightarrow> string \<Rightarrow> nat option" where
  "digits n s = (if n \<le> length s then parse_digits (take n s) else None)"

section \<open>datetime\<close>

text \<open>
  The time zone of an aware \<^verbatim>\<open>datetime\<close>: \<^verbatim>\<open>timezone.utc\<close>, or a fixed offset given by
  its sign (\<open>True\<close>: negative), its whole seconds and its microseconds.
\<close>

datatype tz =
    UTC
  | Offset bool nat nat

text \<open>
  A \<^verbatim>\<open>datetime.datetime\<close>; \<open>tzinfo = None\<close> is a naive value (what \<^verbatim>\<open>utcnow()\<close>
  returns).
\<close>

record datetime =
  year :: nat
  month :: nat
  day :: nat
  hour :: nat
  minute :: nat
  second :: nat
  microsecond :: nat
  tzinfo :: "tz option"

definition is_leap :: "nat \<Rightarrow> bool" where
  "is_leap y =
     (if y mod 400 = 0 then True else if y mod 100 = 0 then False else y mod 4 = 0)"

definition days_in_month :: "nat \<Rightarrow> nat \<Rightarrow> nat" where
  "days_in_month y m =
     (if m = 2 then (if is_leap y then 29 else 28)
      else if m = 4 \<or> m = 6 \<or> m = 9 \<or> m = 11 then 30
      else 31)"

text \<open>
  \<^verbatim>\<open>dt.replace(year=..., month=..., day=...)\<close>: the fields given are replaced and the
  date is checked again, year first, then month, then day; a field out of range raises
  \<^verbatim>\<open>ValueError\<close>. Nothing is carried into the next month.
\<close>

definition replace ::
  "datetime \<Rightarrow> nat option \<Rightarrow> nat option \<Rightarrow> nat option \<Rightarrow> error + datetime" where
  "replace dt y m d =
     (let y' = (case y of None \<Rightarrow> year dt | Some v \<Rightarrow> v);
          m' = (case m of None \<Rightarrow> month dt | Some v \<Rightarrow> v);
          d' = (case d of None \<Rightarrow> day dt | Some v \<Rightarrow> v)
      in if y' < 1 \<or> 9999 < y' then Inl (ValueError (''year '' @ show_nat y' @ '' is out of range''))
         else if m' < 1 \<or> 12 < m' then Inl (ValueError ''month must be in 1..12'')
         else if d' < 1 \<or> days_in_month y' m' < d' then Inl (ValueError ''day is out of range for month'')
         else Inr (dt\<lparr>year := y', month := m', day := d'\<rparr>))"

text \<open>
  \<^verbatim>\<open>dt + timedelta(hours=h, minutes=m)\<close>: the time of day is advanced and the days
  that overflow are carried through the calendar; past 9999-12-31 it raises
  \<^verbatim>\<open>OverflowError\<close>.
\<close>

definition next_day :: "datetime \<Rightarrow> error + datetime" where
  "next_day dt =
     (if day dt < days_in_month (year dt) (month dt) then Inr (dt\<lparr>day := day dt + 1\<rparr>)
      else if month dt < 12 then Inr (dt\<lparr>month := month dt + 1, day := 1\<rparr>)
      else if year dt < 9999 then Inr (dt\<lparr>year := year dt + 1, month := 1, day := 1\<rparr>)
      else Inl (OverflowError ''date value out of range''))"

fun add_days :: "nat \<Rightarrow> datetime \<Rightarrow> error + datetime" where
  "add_days 0 dt = Inr dt"
| "add_days (Suc n) dt = (case next_day dt of Inl e \<Rightarrow> Inl e | Inr dt' \<Rightarrow> add_days n dt')"

definition add_timedelta :: "datetime \<Rightarrow> nat \<Rightarrow> nat \<Rightarrow> error + datetime" where
  "add_timedelta dt h m =
     (let t = (hour dt + h) * 3600 + (minute dt + m) * 60 + second dt
      in case add_days (t div 86400) dt of
           Inl e \<Rightarrow> Inl e
         | Inr dt' \<Rightarrow>
             Inr (dt'\<lparr>hour := (t mod 86400) div 3600,
                      minute := (t mod 3600) div 60,
                      second := t mod 60\<rparr>))"

text \<open>
  \<^verbatim>\<open>dt.strftime("%Y-%m-%dT%H:%M:%SZ")\<close> and \<^verbatim>\<open>dt.isoformat()\<close>, for a year of four
  digits (every year the clock of a running system gives). The literal \<^verbatim>\<open>Z\<close> of the
  format is printed whatever the value's time zone. \<^verbatim>\<open>isoformat\<close> prints the offset of
  an aware value as \<^verbatim>\<open>+HH:MM\<close>, with the seconds when there are any and the
  microseconds when there are any.
\<close>

definition strftime_Z :: "datetime \<Rightarrow> string" where
  "strftime_Z dt =
     pad 4 (year dt) @ ''-'' @ pad 2 (month dt) @ ''-'' @ pad 2 (day dt) @ ''T'' @
     pad 2 (hour dt) @ '':'' @ pad 2 (minute dt) @ '':'' @ pad 2 (second dt) @ ''Z''"

definition format_offset :: "tz option \<Rightarrow> string" where
  "format_offset z =
     (case z of
        None \<Rightarrow> []
      | Some UTC \<Rightarrow> ''+00:00''
      | Some (Offset neg secs us) \<Rightarrow>
          (if neg then ''-'' else ''+'') @ pad 2 (secs div 3600) @ '':'' @
          pad 2 ((secs mod 3600) div 60) @
          (if us \<noteq> 0 then '':'' @ pad 2 (secs mod 60) @ ''.'' @ pad 6 us
           else if secs mod 60 \<noteq> 0 then '':'' @ pad 2 (secs mod 60)
           else []))"

definition isoformat :: "datetime \<Rightarrow> string" where
  "isoformat dt =
     pad 4 (year dt) @ ''-'' @ pad 2 (month dt) @ ''-'' @ pad 2 (day dt) @ ''T'' @
     pad 2 (hour dt) @ '':'' @ pad 2 (minute dt) @ '':'' @ pad 2 (second dt) @
     (if microsecond dt = 0 then [] else ''.'' @ pad 6 (microsecond dt)) @
     format_offset (tzinfo dt)"

subsection \<open>fromisoformat\<close>

text \<open>
  \<^verbatim>\<open>datetime.fromisoformat\<close> as CPython 3.9 (the runtime of both Lambda functions)
  implements it, on the UTF-8 text of the string: the date \<^verbatim>\<open>YYYY-MM-DD\<close>; alone, or
  followed by one separator character (of one to four bytes) and a time. The time is
  cut at the first \<^verbatim>\<open>+\<close> or \<^verbatim>\<open>-\<close>: before it \<^verbatim>\<open>HH[:MM[:SS[.fff[fff]]]]\<close>, from it on an
  offset of 6, 9 or 16 characters, \<^verbatim>\<open>+HH:MM[:SS[.ffffff]]\<close>.

  \<open>hms\<close> is the parser's loop over up to three two-digit fields (\<^verbatim>\<open>parse_hh_mm_ss_ff\<close>).
  It is given the text up to the cut and the character that follows the text (the sign
  of the offset, or NUL at the end of the string), and returns the fields read, the
  microseconds, and whether it stopped before the end of the string. As in the C code,
  a field is followed by \<^verbatim>\<open>:\<close> (next field; after the third, the fraction), by \<^verbatim>\<open>.\<close>
  (the fraction, of exactly three or six digits) or by the end of the text.
\<close>

definition NUL :: char where
  "NUL = CHR 0x00"

definition fraction :: "string \<Rightarrow> char \<Rightarrow> (nat \<times> bool) option" where
  "fraction rest follow =
     (if length rest = 6 then map_option (\<lambda>n. (n, follow \<noteq> NUL)) (parse_digits rest)
      else if length rest = 3 then map_option (\<lambda>n. (n * 1000, follow \<noteq> NUL)) (parse_digits rest)
      else None)"

fun hms :: "nat \<Rightarrow> string \<Rightarrow> char \<Rightarrow> (nat list \<times> nat \<times> bool) option" where
  "hms 0 seg follow = map_option (\<lambda>(us, cont). ([], us, cont)) (fraction seg follow)"
| "hms (Suc k) seg follow =
     (case digits 2 seg of
        None \<Rightarrow> None
      | Some v \<Rightarrow>
          (let c = (if 2 < length seg then seg ! 2 else follow)
           in if length seg \<le> 3 then Some ([v], 0, c \<noteq> NUL)
              else if c = CHR '':'' then
                map_option (\<lambda>(vs, us, cont). (v # vs, us, cont)) (hms k (drop 3 seg) follow)
              else if c = CHR ''.'' then
                map_option (\<lambda>(us, cont). ([v], us, cont)) (fraction (drop 3 seg) follow)
              else None))"

text \<open>The fields of a time that were not written are 0.\<close>

definition field :: "nat list \<Rightarrow> nat \<Rightarrow> nat" where
  "field vs i = (if i < length vs then vs ! i else 0)"

text \<open>
  \<^verbatim>\<open>parse_isoformat_time\<close>: hour, minute, second, microsecond and, when an offset is
  written, its sign, seconds and microseconds.
\<close>

definition is_sign :: "char \<Rightarrow> bool" where
  "is_sign c = (c = CHR ''+'' \<or> c = CHR ''-'')"

definition parse_isoformat_time ::
  "string \<Rightarrow> (nat \<times> nat \<times> nat \<times> nat \<times> (bool \<times> nat \<times> nat) option) option" where
  "parse_isoformat_time t =
     (let seg = takeWhile (\<lambda>c. \<not> is_sign c) t;
          off = dropWhile (\<lambda>c. \<not> is_sign c) t
      in if t = [] then None
         else
           case hms 3 seg (if off = [] then NUL else hd off) of
             None \<Rightarrow> None
           | Some (vs, us, cont) \<Rightarrow>
               if off = [] then
                 (if cont then None else Some (field vs 0, field vs 1, field vs 2, us, None))
               else if length off = 6 \<or> length off = 9 \<or> length off = 16 then
                 (case hms 3 (tl off) NUL of
                    None \<Rightarrow> None
                  | Some (tvs, tus, tcont) \<Rightarrow>
                      if tcont then None
                      else Some (field vs 0, field vs 1, field vs 2, us,
                                 Some (hd off = CHR ''-'',
                                       field tvs 0 * 3600 + field tvs 1 * 60 + field tvs 2,
                                       tus)))
               else None)"

text \<open>
  The time zone of the result: \<^verbatim>\<open>timezone.utc\<close> when the offset's seconds are 0, else
  a \<^verbatim>\<open>timezone\<close> of the offset, which must be less than 24 hours; the error prints the
  \<^verbatim>\<open>timedelta\<close> (its days, seconds and microseconds, those that are not 0).
\<close>

definition timedelta_repr :: "int \<Rightarrow> string" where
  "timedelta_repr micros =
     (let d = micros div 86400000000;
          s = (micros mod 86400000000) div 1000000;
          u = micros mod 1000000;
          parts = (if d = 0 then [] else [''days='' @ show_int d]) @
                  (if s = 0 then [] else [''seconds='' @ show_int s]) @
                  (if u = 0 then [] else [''microseconds='' @ show_int u])
      in ''datetime.timedelta('' @
         (case parts of
            [] \<Rightarrow> ''0''
          | p # ps \<Rightarrow> p @ concat (map (\<lambda>q. '', '' @ q) ps)) @
         '')'')"

definition tzinfo_from :: "(bool \<times> nat \<times> nat) option \<Rightarrow> error + tz option" where
  "tzinfo_from off =
     (case off of
        None \<Rightarrow> Inr None
      | Some (neg, secs, us) \<Rightarrow>
          if secs = 0 then Inr (Some UTC)
          else if 86400 \<le> secs then
            Inl (ValueError
                   (''offset must be a timedelta strictly between -timedelta(hours=24) and '' @
                    ''timedelta(hours=24), not '' @
                    timedelta_repr ((if neg then - 1 else 1) * (int secs * 1000000 + int us)) @
                    ''.''))
          else Inr (Some (Offset neg secs us)))"

text \<open>The checks of the constructor: the date, then the time.\<close>

definition check_fields :: "datetime \<Rightarrow> error + datetime" where
  "check_fields dt =
     (if year dt < 1 \<or> 9999 < year dt
        then Inl (ValueError (''year '' @ show_nat (year dt) @ '' is out of range''))
      else if month dt < 1 \<or> 12 < month dt then Inl (ValueError ''month must be in 1..12'')
      else if day dt < 1 \<or> days_in_month (year dt) (month dt) < day dt
        then Inl (ValueError ''day is out of range for month'')
      else if 23 < hour dt then Inl (ValueError ''hour must be in 0..23'')
      else if 59 < minute dt then Inl (ValueError ''minute must be in 0..59'')
      else if 59 < second dt then Inl (ValueError ''second must be in 0..59'')
      else if 999999 < microsecond dt then Inl (ValueError ''microsecond must be in 0..999999'')
      else Inr dt)"

text \<open>The bytes of the separator, read off its first byte as the C code does.\<close>

definition separator_length :: "char \<Rightarrow> nat" where
  "separator_length c =
     (if (of_char c :: nat) < 128 then 1
      else if (of_char c :: nat) div 16 = 14 then 3
      else if (of_char c :: nat) div 16 = 15 then 4
      else 2)"

definition fromisoformat :: "string \<Rightarrow> error + datetime" where
  "fromisoformat s =
     (case (digits 4 s, digits 2 (drop 5 s), digits 2 (drop 8 s)) of
        (Some y, Some mo, Some d) \<Rightarrow>
          if s ! 4 = CHR ''-'' \<and> s ! 7 = CHR ''-'' then
            (if length s = 10 then
               check_fields \<lparr>year = y, month = mo, day = d, hour = 0, minute = 0, second = 0,
                             microsecond = 0, tzinfo = None\<rparr>
             else
               case parse_isoformat_time (drop (10 + separator_length (s ! 10)) s) of
                 None \<Rightarrow> Inl (InvalidIsoformat s)
               | Some (h, mi, sec, us, off) \<Rightarrow>
                   (case tzinfo_from off of
                      Inl e \<Rightarrow> Inl e
                    | Inr z \<Rightarrow>
                        check_fields \<lparr>year = y, month = mo, day = d, hour = h, minute = mi,
                                      second = sec, microsecond = us, tzinfo = z\<rparr>))
          else Inl (InvalidIsoformat s)
      | _ \<Rightarrow> Inl (InvalidIsoformat s))"

section \<open>The task table and the world around the handlers\<close>

text \<open>
  An item of the DynamoDB table. \<open>task_id\<close> and \<open>run_at\<close> are the table's key (both
  of type string in \<^verbatim>\<open>cdk_stack/task_scheduler_stack.py\<close>) and \<open>status\<close> is the
  partition key of the index \<^verbatim>\<open>status-index\<close>; the other attributes may be absent
  (\<open>None\<close>), which is what \<^verbatim>\<open>'recurrence' in task\<close> tests and what makes
  \<^verbatim>\<open>task['action']\<close> raise \<^verbatim>\<open>KeyError\<close>. \<open>action\<close>, \<open>payload\<close> and \<open>recurrence\<close> hold
  any JSON value: the create operation stores what the request gives.
\<close>

record task =
  task_id :: string
  run_at :: string
  status :: string
  action :: "json option"
  payload :: "json option"
  recurrence :: "json option"
  created_at :: "string option"
  updated_at :: "string option"
  error_message :: "string option"
  parent_task_id :: "string option"

definition task_key :: "task \<Rightarrow> string \<times> string" where
  "task_key t = (task_id t, run_at t)"

text \<open>A write the table has applied: \<^verbatim>\<open>update_item\<close> (key, new status, message) or \<^verbatim>\<open>put_item\<close>.\<close>

datatype store_write =
    UpdateItem string string string "string option"
  | PutItem task

text \<open>What an HTTP call of \<^verbatim>\<open>requests\<close> comes back with: a response (its status code
  and the text \<^verbatim>\<open>raise_for_status\<close> raises with when the code is an error), or an
  exception before any response (connection refused, timeout, a url that is no url,
  data or headers that cannot be sent).\<close>

datatype http_outcome =
    Response nat string
  | NetworkError string

text \<open>
  The state the handlers run in. \<open>table\<close> is the DynamoDB table and \<open>writes\<close> the log
  of the writes applied to it, oldest first. The rest is the environment, which the
  code does not control: \<open>faults\<close> says for each coming request to the table whether
  it raises and what (\<open>Some e\<close>: a \<^verbatim>\<open>ClientError\<close> when the service refuses or fails,
  another exception when botocore cannot reach it; an exhausted list: no fault),
  \<open>clock\<close> gives the successive readings
  of \<^verbatim>\<open>datetime.utcnow()\<close> and \<open>reads\<close> counts them, \<open>http\<close> answers a request (GET or
  not, url, data, headers), and \<open>py_str\<close> and \<open>py_repr\<close> are the texts Python prints:
  \<^verbatim>\<open>str(v)\<close> of a value that is not a string, and \<^verbatim>\<open>repr(s)\<close> of a string.
\<close>

record world =
  table :: "task list"
  writes :: "store_write list"
  faults :: "error option list"
  clock :: "nat \<Rightarrow> datetime"
  reads :: nat
  http :: "bool \<Rightarrow> json \<Rightarrow> json \<Rightarrow> json \<Rightarrow> http_outcome"
  py_str :: "json \<Rightarrow> string"
  py_repr :: "string \<Rightarrow> string"

definition utcnow :: "world \<Rightarrow> datetime \<times> world" where
  "utcnow w = (clock w (reads w), w\<lparr>reads := Suc (reads w)\<rparr>)"

definition next_fault :: "world \<Rightarrow> error option \<times> world" where
  "next_fault w =
     (case faults w of [] \<Rightarrow> (None, w) | f # fs \<Rightarrow> (f, w\<lparr>faults := fs\<rparr>))"

text \<open>\<^verbatim>\<open>str(e)\<close>, and the text of a value inside an f-string. The key of a \<^verbatim>\<open>KeyError\<close>
  is one of the attribute names of the code, printed between apostrophes.\<close>

definition str_of :: "world \<Rightarrow> error \<Rightarrow> string" where
  "str_of w e =
     (case e of
        ValueError m \<Rightarrow> m
      | InvalidIsoformat s \<Rightarrow> ''Invalid isoformat string: '' @ py_repr w s
      | JSONDecodeError m \<Rightarrow> m
      | KeyError k \<Rightarrow> apostrophe @ k @ apostrophe
      | AttributeError m \<Rightarrow> m
      | TypeError m \<Rightarrow> m
      | OverflowError m \<Rightarrow> m
      | DecimalException m \<Rightarrow> m
      | ClientError m \<Rightarrow> m
      | RequestException m \<Rightarrow> m
      | OtherException m \<Rightarrow> m)"

definition text_of :: "world \<Rightarrow> json \<Rightarrow> string" where
  "text_of w v = (case v of JStr s \<Rightarrow> s | _ \<Rightarrow> py_str w v)"

subsection \<open>What boto3 refuses to send\<close>

text \<open>
  boto3 serialises an item before any request, value by value in the order of the
  item and depth first, and raises at the first value it cannot write: a \<^verbatim>\<open>float\<close>
  (\<^verbatim>\<open>TypeError\<close>), or a number that does not fit the 38 digits of a DynamoDB number,
  which the \<^verbatim>\<open>decimal\<close> context of boto3 signals (\<^verbatim>\<open>Rounded\<close> when only zeros are
  dropped, \<^verbatim>\<open>Inexact\<close> otherwise, \<^verbatim>\<open>Overflow\<close> when the rounded number passes the largest
  exponent, 126).
\<close>

definition signals :: "string list \<Rightarrow> error" where
  "signals names =
     DecimalException
       (''['' @
        (case map (\<lambda>n. ''<class '' @ apostrophe @ ''decimal.'' @ n @ apostrophe @ ''>'') names of
           [] \<Rightarrow> []
         | c # cs \<Rightarrow> c @ concat (map (\<lambda>q. '', '' @ q) cs)) @
        '']'')"

definition decimal_refusal :: "int \<Rightarrow> error option" where
  "decimal_refusal i =
     (let n = nat \<bar>i\<bar>
      in if n < 10 ^ 38 then None
         else if 10 ^ 127 - 5 * 10 ^ 88 \<le> n
           then Some (signals [''Overflow'', ''Inexact'', ''Rounded''])
         else if n mod 10 ^ (length (show_nat n) - 38) = 0 then Some (signals [''Rounded''])
         else Some (signals [''Inexact'', ''Rounded'']))"

fun refusal :: "json \<Rightarrow> error option"
  and refusal_list :: "json list \<Rightarrow> error option"
  and refusal_fields :: "(string \<times> json) list \<Rightarrow> error option" where
  "refusal JNull = None"
| "refusal (JBool b) = None"
| "refusal (JInt i) = decimal_refusal i"
| "refusal (JFloat f) =
     Some (TypeError ''Float types are not supported. Use Decimal types instead.'')"
| "refusal (JStr s) = None"
| "refusal (JArr xs) = refusal_list xs"
| "refusal (JObj kvs) = refusal_fields kvs"
| "refusal_list [] = None"
| "refusal_list (x # xs) = (case refusal x of Some e \<Rightarrow> Some e | None \<Rightarrow> refusal_list xs)"
| "refusal_fields [] = None"
| "refusal_fields (kv # kvs) =
     (case refusal (snd kv) of Some e \<Rightarrow> Some e | None \<Rightarrow> refusal_fields kvs)"

text \<open>The first value of an item that boto3 refuses; the attributes that hold strings
  are never refused. Both handlers build the item with \<open>action\<close> before \<open>payload\<close>
  before \<open>recurrence\<close>.\<close>

definition unstorable :: "task \<Rightarrow> error option" where
  "unstorable item =
     refusal_list
       ((case action item of None \<Rightarrow> [] | Some v \<Rightarrow> [v]) @
        (case payload item of None \<Rightarrow> [] | Some v \<Rightarrow> [v]) @
        (case recurrence item of None \<Rightarrow> [] | Some v \<Rightarrow> [v]))"

subsection \<open>The table's operations\<close>

text \<open>
  \<^verbatim>\<open>table.update_item\<close> with \<^verbatim>\<open>SET #status = :status, updated_at = :updated_at\<close> and,
  when a message is given, \<^verbatim>\<open>error_message = :error_message\<close>: the attributes named are
  set on the item under the key and no other attribute is touched; DynamoDB creates the
  item, with the key and the attributes set, when there is none. The values written are
  strings, which boto3 never refuses.
\<close>

definition set_status :: "string \<Rightarrow> string \<Rightarrow> string option \<Rightarrow> task \<Rightarrow> task" where
  "set_status st upd msg x =
     x\<lparr>status := st, updated_at := Some upd,
       error_message := (case msg of None \<Rightarrow> error_message x | Some m \<Rightarrow> Some m)\<rparr>"

definition blank_item :: "string \<Rightarrow> string \<Rightarrow> task" where
  "blank_item tid ra =
     \<lparr>task_id = tid, run_at = ra, status = [], action = None, payload = None,
      recurrence = None, created_at = None, updated_at = None, error_message = None,
      parent_task_id = None\<rparr>"

definition written ::
  "string \<Rightarrow> string \<Rightarrow> string \<Rightarrow> string \<Rightarrow> string option \<Rightarrow> task list \<Rightarrow> task list" where
  "written tid ra st upd msg ts =
     (if (tid, ra) \<in> set (map task_key ts)
      then map (\<lambda>x. if task_key x = (tid, ra) then set_status st upd msg x else x) ts
      else ts @ [set_status st upd msg (blank_item tid ra)])"

definition update_item ::
  "string \<Rightarrow> string \<Rightarrow> string \<Rightarrow> string \<Rightarrow> string option \<Rightarrow> world \<Rightarrow> (error + unit) \<times> world" where
  "update_item tid ra st upd msg w =
     (case next_fault w of
        (Some e, w') \<Rightarrow> (Inl e, w')
      | (None, w') \<Rightarrow>
          (Inr (),
           w'\<lparr>table := written tid ra st upd msg (table w'),
              writes := writes w' @ [UpdateItem tid ra st msg]\<rparr>))"

text \<open>
  \<^verbatim>\<open>table.put_item(Item=...)\<close>: boto3 raises before any request when it refuses a value
  of the item; else the table inserts the item, or replaces the item under the same
  key.
\<close>

definition put_item :: "task \<Rightarrow> world \<Rightarrow> (error + unit) \<times> world" where
  "put_item item w =
     (case unstorable item of
        Some e \<Rightarrow> (Inl e, w)
      | None \<Rightarrow>
          (case next_fault w of
             (Some e, w') \<Rightarrow> (Inl e, w')
           | (None, w') \<Rightarrow>
               (Inr (),
                w'\<lparr>table := filter (\<lambda>x. task_key x \<noteq> task_key item) (table w') @ [item],
                   writes := writes w' @ [PutItem item]\<rparr>)))"

text \<open>
  \<^verbatim>\<open>table.query\<close> on \<^verbatim>\<open>status-index\<close> with
  \<^verbatim>\<open>#status = :status AND #run_at <= :current_time\<close>: the items of that status whose
  \<open>run_at\<close> is at most the bound as strings, in ascending order of \<open>run_at\<close> (the
  index's sort key). The handler reads one page of the result and the model takes the
  result to fit in it.
\<close>

fun insert_by_run_at :: "task \<Rightarrow> task list \<Rightarrow> task list" where
  "insert_by_run_at x [] = [x]"
| "insert_by_run_at x (y # ys) =
     (if str_le (run_at y) (run_at x) then y # insert_by_run_at x ys else x # y # ys)"

definition sort_by_run_at :: "task list \<Rightarrow> task list" where
  "sort_by_run_at xs = foldl (\<lambda>acc x. insert_by_run_at x acc) [] xs"

definition query :: "string \<Rightarrow> string \<Rightarrow> world \<Rightarrow> (error + task list) \<times> world" where
  "query st bound w =
     (case next_fault w of
        (Some e, w') \<Rightarrow> (Inl e, w')
      | (None, w') \<Rightarrow>
          (Inr (sort_by_run_at
                  (filter (\<lambda>x. status x = st \<and> str_le (run_at x) bound) (table w'))),
           w'))"

section \<open>The executor (executor\_handler.py)\<close>

text \<open>The dict a Lambda handler returns: \<^verbatim>\<open>statusCode\<close> and the object its \<^verbatim>\<open>body\<close> is
  the JSON text of.\<close>

record response =
  statusCode :: nat
  body :: dict

text \<open>
  \<^verbatim>\<open>update_task_status(task_id, run_at, status, error_message=None)\<close>: reads the clock
  for \<open>updated_at\<close> and sets \<open>error_message\<close> only when the message is truthy
  (\<^verbatim>\<open>if error_message:\<close>).
\<close>

definition given :: "string option \<Rightarrow> string option" where
  "given msg = (case msg of None \<Rightarrow> None | Some m \<Rightarrow> if m = [] then None else Some m)"

definition update_task_status ::
  "string \<Rightarrow> string \<Rightarrow> string \<Rightarrow> string option \<Rightarrow> world \<Rightarrow> (error + unit) \<times> world" where
  "update_task_status tid ra st msg w =
     (case utcnow w of
        (now, w') \<Rightarrow> update_item tid ra st (isoformat now @ ''Z'') (given msg) w')"

text \<open>\<^verbatim>\<open>method.upper()\<close> on ASCII text.\<close>

definition upper_char :: "char \<Rightarrow> char" where
  "upper_char c =
     (case map_of (zip ''abcdefghijklmnopqrstuvwxyz'' ''ABCDEFGHIJKLMNOPQRSTUVWXYZ'') c of
        None \<Rightarrow> c
      | Some u \<Rightarrow> u)"

definition upper :: "string \<Rightarrow> string" where
  "upper s = map upper_char s"

text \<open>
  \<^verbatim>\<open>execute_webhook(payload)\<close>. The payload is what the table holds under \<^verbatim>\<open>payload\<close>;
  \<^verbatim>\<open>payload.get\<close> raises \<^verbatim>\<open>AttributeError\<close> when it is not a dict, before the check of
  the url.
\<close>

definition execute_webhook :: "json \<Rightarrow> world \<Rightarrow> error + nat" where
  "execute_webhook p w =
     (case p of
        JObj d \<Rightarrow>
          (let url = dict_get d ''url'';
               data = (case dict_get d ''data'' of None \<Rightarrow> JObj [] | Some v \<Rightarrow> v);
               method = (case dict_get d ''method'' of None \<Rightarrow> JStr ''POST'' | Some v \<Rightarrow> v);
               headers = (case dict_get d ''headers'' of
                            None \<Rightarrow> JObj [(''Content-Type'', JStr ''application/json'')]
                          | Some v \<Rightarrow> v)
           in case url of
                None \<Rightarrow> Inl (ValueError ''Webhook URL is required'')
              | Some u \<Rightarrow>
                  if truthy u then
                    (case method of
                       JStr m \<Rightarrow>
                         (case http w (upper m = ''GET'') u data headers of
                            NetworkError e \<Rightarrow> Inl (RequestException e)
                          | Response code txt \<Rightarrow>
                              if 400 \<le> code \<and> code < 600 then Inl (RequestException txt)
                              else Inr code)
                     | v \<Rightarrow> Inl (no_attribute (stored_type_name v) ''upper''))
                  else Inl (ValueError ''Webhook URL is required''))
      | v \<Rightarrow> Inl (no_attribute (stored_type_name v) ''get''))"

definition execute_message :: "json \<Rightarrow> error + bool" where
  "execute_message p =
     (case p of
        JObj d \<Rightarrow>
          (let message = (case dict_get d ''message'' of None \<Rightarrow> JStr [] | Some v \<Rightarrow> v);
               recipient = (case dict_get d ''recipient'' of None \<Rightarrow> JStr [] | Some v \<Rightarrow> v)
           in Inr True)
      | v \<Rightarrow> Inl (no_attribute (stored_type_name v) ''get''))"

text \<open>
  The recurrence calculation of \<^verbatim>\<open>schedule_next_occurrence\<close> (the \<^verbatim>\<open>if/elif\<close> over the
  pattern): \<open>None\<close> for a pattern it does not support, else what the \<^verbatim>\<open>replace\<close> call
  returns or raises.
\<close>

definition next_run :: "string \<Rightarrow> datetime \<Rightarrow> (error + datetime) option" where
  "next_run r current_time =
     (if r = ''daily'' then Some (replace current_time None None (Some (day current_time + 1)))
      else if r = ''weekly'' then Some (replace current_time None None (Some (day current_time + 7)))
      else if r = ''monthly'' then
        Some (if month current_time = 12
              then replace current_time (Some (year current_time + 1)) (Some 1) None
              else replace current_time None (Some (month current_time + 1)) None)
      else None)"

text \<open>
  \<^verbatim>\<open>schedule_next_occurrence(task)\<close>. The stored \<open>recurrence\<close> is compared with the
  three patterns; a value that is not a string equals none of them.
\<close>

definition schedule_next_occurrence :: "task \<Rightarrow> world \<Rightarrow> (error + unit) \<times> world" where
  "schedule_next_occurrence t w =
     (case recurrence t of
        None \<Rightarrow> (Inl (KeyError ''recurrence''), w)
      | Some r \<Rightarrow>
          (case fromisoformat (str_replace ''Z'' ''+00:00'' (run_at t)) of
             Inl e \<Rightarrow> (Inl e, w)
           | Inr current_time \<Rightarrow>
               (case (case r of JStr pattern \<Rightarrow> next_run pattern current_time | _ \<Rightarrow> None) of
                  None \<Rightarrow> (Inr (), w)
                | Some (Inl e) \<Rightarrow> (Inl e, w)
                | Some (Inr nr) \<Rightarrow>
                    (let next_run_at = str_replace ''+00:00'' ''Z'' (isoformat nr);
                         new_task_id = task_id t @ ''-'' @ next_run_at
                     in case action t of
                          None \<Rightarrow> (Inl (KeyError ''action''), w)
                        | Some a \<Rightarrow>
                            (case payload t of
                               None \<Rightarrow> (Inl (KeyError ''payload''), w)
                             | Some p \<Rightarrow>
                                 (case utcnow w of
                                    (c1, w1) \<Rightarrow>
                                      (case utcnow w1 of
                                         (c2, w2) \<Rightarrow>
                                           put_item
                                             \<lparr>task_id = new_task_id, run_at = next_run_at,
                                              status = ''scheduled'', action = Some a,
                                              payload = Some p, recurrence = Some r,
                                              created_at = Some (isoformat c1 @ ''Z''),
                                              updated_at = Some (isoformat c2 @ ''Z''),
                                              error_message = None,
                                              parent_task_id = Some (task_id t)\<rparr>
                                             w2)))))))"

text \<open>
  \<^verbatim>\<open>execute_task\<close>. \<open>record_completed\<close> is the code after the dispatch (the write of
  \<^verbatim>\<open>completed\<close>, then the recurrence), \<open>try_block\<close> the body of the \<^verbatim>\<open>try\<close>, and
  \<open>execute_task\<close> reads the four keys (a \<^verbatim>\<open>KeyError\<close> there is raised outside the
  \<^verbatim>\<open>try\<close>) and runs the \<^verbatim>\<open>except\<close> clause on the error of the block: it writes
  \<^verbatim>\<open>failed\<close> with \<^verbatim>\<open>str(e)\<close>, and what that write raises leaves the function.
\<close>

definition record_completed :: "task \<Rightarrow> world \<Rightarrow> (error + unit) \<times> world" where
  "record_completed t w =
     (case update_task_status (task_id t) (run_at t) ''completed'' None w of
        (Inl e, w') \<Rightarrow> (Inl e, w')
      | (Inr u, w') \<Rightarrow>
          if recurrence t = None then (Inr (), w') else schedule_next_occurrence t w')"

definition try_block :: "task \<Rightarrow> json \<Rightarrow> json \<Rightarrow> world \<Rightarrow> (error + unit) \<times> world" where
  "try_block t a p w =
     (case update_task_status (task_id t) (run_at t) ''running'' None w of
        (Inl e, w') \<Rightarrow> (Inl e, w')
      | (Inr u, w') \<Rightarrow>
          if a = JStr ''webhook'' then
            (case execute_webhook p w' of
               Inl e \<Rightarrow> (Inl e, w')
             | Inr code \<Rightarrow> record_completed t w')
          else if a = JStr ''message'' then
            (case execute_message p of
               Inl e \<Rightarrow> (Inl e, w')
             | Inr ok \<Rightarrow> record_completed t w')
          else
            update_task_status (task_id t) (run_at t) ''failed''
              (Some (''Unsupported action type: '' @ text_of w' a)) w')"

definition execute_task :: "task \<Rightarrow> world \<Rightarrow> (error + unit) \<times> world" where
  "execute_task t w =
     (case action t of
        None \<Rightarrow> (Inl (KeyError ''action''), w)
      | Some a \<Rightarrow>
          (case payload t of
             None \<Rightarrow> (Inl (KeyError ''payload''), w)
           | Some p \<Rightarrow>
               (case try_block t a p w of
                  (Inr u, w') \<Rightarrow> (Inr (), w')
                | (Inl e, w') \<Rightarrow>
                    update_task_status (task_id t) (run_at t) ''failed''
                      (Some (str_of w' e)) w')))"

text \<open>
  \<^verbatim>\<open>handler\<close>: one tick. \<open>run_tasks\<close> is the loop \<^verbatim>\<open>for task in tasks: execute_task(task)\<close>;
  an exception that leaves \<^verbatim>\<open>execute_task\<close> ends the loop and is caught by the handler's
  own \<^verbatim>\<open>except\<close>, which answers 500.
\<close>

fun run_tasks :: "task list \<Rightarrow> world \<Rightarrow> (error + unit) \<times> world" where
  "run_tasks [] w = (Inr (), w)"
| "run_tasks (t # ts) w =
     (case execute_task t w of
        (Inl e, w') \<Rightarrow> (Inl e, w')
      | (Inr u, w') \<Rightarrow> run_tasks ts w')"

definition server_error :: "world \<Rightarrow> error \<Rightarrow> response" where
  "server_error w e = \<lparr>statusCode = 500, body = [(''error'', JStr (str_of w e))]\<rparr>"

definition handler :: "world \<Rightarrow> response \<times> world" where
  "handler w =
     (case utcnow w of
        (now, w0) \<Rightarrow>
          (case add_timedelta now 5 30 of
             Inl e \<Rightarrow> (server_error w0 e, w0)
           | Inr shifted \<Rightarrow>
               (let current_time = strftime_Z shifted
                in case query ''scheduled'' current_time w0 of
                     (Inl e, w1) \<Rightarrow> (server_error w1 e, w1)
                   | (Inr tasks, w1) \<Rightarrow>
                       (case run_tasks tasks w1 of
                          (Inl e, w2) \<Rightarrow> (server_error w2 e, w2)
                        | (Inr u, w2) \<Rightarrow>
                            (\<lparr>statusCode = 200,
                              body = [(''message'',
                                       JStr (''Processed '' @ show_nat (length tasks) @ '' tasks'')),
                                      (''timestamp'', JStr current_time)]\<rparr>,
                             w2)))))"

section \<open>Creating a task (api\_handler.py)\<close>

text \<open>
  \<^verbatim>\<open>field in body\<close> and \<^verbatim>\<open>body[field]\<close> for a string \<open>field\<close>, on whatever value the
  body of the request is: a key of an object, an element of a list, a part of a
  string; any other value is not iterable, and only an object has string keys.
\<close>

definition contains :: "json \<Rightarrow> string \<Rightarrow> error + bool" where
  "contains b k =
     (case b of
        JObj kvs \<Rightarrow> Inr (k \<in> set (map fst kvs))
      | JArr xs \<Rightarrow> Inr (JStr k \<in> set xs)
      | JStr s \<Rightarrow> Inr (is_substring k s)
      | v \<Rightarrow>
          Inl (TypeError (''argument of type '' @ apostrophe @ type_name v @ apostrophe @
                          '' is not iterable'')))"

definition subscript :: "json \<Rightarrow> string \<Rightarrow> error + json" where
  "subscript b k =
     (case b of
        JObj kvs \<Rightarrow> (case map_of kvs k of None \<Rightarrow> Inl (KeyError k) | Some v \<Rightarrow> Inr v)
      | JArr xs \<Rightarrow> Inl (TypeError ''list indices must be integers or slices, not str'')
      | JStr s \<Rightarrow> Inl (TypeError ''string indices must be integers'')
      | v \<Rightarrow>
          Inl (TypeError (apostrophe @ type_name v @ apostrophe @
                          '' object is not subscriptable'')))"

text \<open>The value under a key of an object, \<open>None\<close> when there is none.\<close>

definition map_of_json :: "json \<Rightarrow> string \<Rightarrow> json option" where
  "map_of_json b k = (case b of JObj kvs \<Rightarrow> map_of kvs k | _ \<Rightarrow> None)"

text \<open>The loop over \<^verbatim>\<open>required_fields\<close>: the first field the body does not contain.\<close>

fun first_missing :: "json \<Rightarrow> string list \<Rightarrow> error + string option" where
  "first_missing b [] = Inr None"
| "first_missing b (k # ks) =
     (case contains b k of
        Inl e \<Rightarrow> Inl e
      | Inr present \<Rightarrow> if present then first_missing b ks else Inr (Some k))"

definition bad_request :: "string \<Rightarrow> response" where
  "bad_request m = \<lparr>statusCode = 400, body = [(''error'', JStr m)]\<rparr>"

text \<open>The two \<^verbatim>\<open>except\<close> clauses at the end of \<^verbatim>\<open>schedule_task\<close>: a \<^verbatim>\<open>ClientError\<close>, and any
  other exception.\<close>

definition failure :: "world \<Rightarrow> error \<Rightarrow> response" where
  "failure w e =
     (case e of
        ClientError m \<Rightarrow> \<lparr>statusCode = 500, body = [(''error'', JStr ''Failed to schedule task'')]\<rparr>
      | _ \<Rightarrow> \<lparr>statusCode = 500, body = [(''error'', JStr (str_of w e))]\<rparr>)"

text \<open>
  \<^verbatim>\<open>schedule_task(event)\<close>. \<open>parsed\<close> is what \<^verbatim>\<open>json.loads(event['body'])\<close> returns or
  raises and \<open>uuid\<close> the value of \<^verbatim>\<open>str(uuid.uuid4())\<close>. The fields checked are
  \<^verbatim>\<open>action\<close>, \<^verbatim>\<open>payload\<close> and \<^verbatim>\<open>run_at\<close>, in this order; then \<^verbatim>\<open>run_at\<close> is parsed, where
  only a \<^verbatim>\<open>ValueError\<close> is answered 400; nothing looks at \<^verbatim>\<open>action\<close> or inside the
  payload, and every other exception is answered 500.
\<close>

definition schedule_task :: "error + json \<Rightarrow> string \<Rightarrow> world \<Rightarrow> response \<times> world" where
  "schedule_task parsed uuid w =
     (case parsed of
        Inl e \<Rightarrow> (failure w e, w)
      | Inr b \<Rightarrow>
          (case first_missing b [''action'', ''payload'', ''run_at''] of
             Inl e \<Rightarrow> (failure w e, w)
           | Inr (Some k) \<Rightarrow> (bad_request (''Missing required field: '' @ k), w)
           | Inr None \<Rightarrow>
               (case subscript b ''run_at'' of
                  Inl e \<Rightarrow> (failure w e, w)
                | Inr (JStr ra) \<Rightarrow>
                    (case fromisoformat (str_replace ''Z'' ''+00:00'' ra) of
                       Inl e \<Rightarrow>
                         (bad_request
                            ''Invalid run_at format. Use ISO8601 format (YYYY-MM-DDTHH:MM:SSZ)'',
                          w)
                     | Inr dt \<Rightarrow>
                         (case utcnow w of
                            (now, w1) \<Rightarrow>
                              (case (subscript b ''action'', subscript b ''payload'',
                                     contains b ''recurrence'') of
                                 (Inr a, Inr p, Inr recurring) \<Rightarrow>
                                   (case put_item
                                           \<lparr>task_id = uuid, run_at = ra, status = ''scheduled'',
                                            action = Some a, payload = Some p,
                                            recurrence =
                                              (if recurring then map_of_json b ''recurrence''
                                               else None),
                                            created_at = Some (isoformat now @ ''Z''),
                                            updated_at = Some (isoformat now @ ''Z''),
                                            error_message = None, parent_task_id = None\<rparr>
                                           w1 of
                                      (Inl e, w2) \<Rightarrow> (failure w2 e, w2)
                                    | (Inr u, w2) \<Rightarrow>
                                        (\<lparr>statusCode = 201,
                                          body = [(''message'', JStr ''Task scheduled successfully''),
                                                  (''task_id'', JStr uuid)]\<rparr>,
                                         w2))
                               | (Inl e, x, y) \<Rightarrow> (failure w1 e, w1)
                               | (Inr a, Inl e, y) \<Rightarrow> (failure w1 e, w1)
                               | (Inr a, Inr p, Inl e) \<Rightarrow> (failure w1 e, w1))))
                | Inr v \<Rightarrow> (failure w (no_attribute (type_name v) ''replace''), w))))"

section \<open>Runs of the environment, and inputs for the examples\<close>

text \<open>The next \<open>n\<close> requests to the table raise nothing.\<close>

definition calls_succeed :: "nat \<Rightarrow> world \<Rightarrow> bool" where
  "calls_succeed n w = list_all (\<lambda>f. f = None) (take n (faults w))"

text \<open>
  A world for the examples: the clock reads 2024-01-31 12:00:00 UTC (a microsecond
  later at each reading), every HTTP request is answered 200, and the table and the
  faults of the table's requests are given. \<^verbatim>\<open>repr\<close> of a string is the string between
  apostrophes (what Python prints for a string without apostrophe, backslash or control
  character); \<^verbatim>\<open>str\<close> of a value that is not a string is a placeholder (the name
  of its type between angle brackets), which no example prints.
\<close>

definition noon :: datetime where
  "noon = \<lparr>year = 2024, month = 1, day = 31, hour = 12, minute = 0, second = 0,
           microsecond = 0, tzinfo = None\<rparr>"

definition calm :: "task list \<Rightarrow> error option list \<Rightarrow> world" where
  "calm ts fs =
     \<lparr>table = ts, writes = [], faults = fs, clock = (\<lambda>n. noon\<lparr>microsecond := Suc n\<rparr>),
      reads = 0, http = (\<lambda>g u d h. Response 200 []),
      py_str = (\<lambda>v. ''<'' @ type_name v @ ''>''),
      py_repr = (\<lambda>s. apostrophe @ s @ apostrophe)\<rparr>"

text \<open>A scheduled task of action \<^verbatim>\<open>message\<close> with an empty payload.\<close>

definition message_task :: "string \<Rightarrow> string \<Rightarrow> string option \<Rightarrow> task" where
  "message_task tid ra r =
     \<lparr>task_id = tid, run_at = ra, status = ''scheduled'', action = Some (JStr ''message''),
      payload = Some (JObj []), recurrence = map_option JStr r, created_at = None,
      updated_at = None, error_message = None, parent_task_id = None\<rparr>"

text \<open>A scheduled task of an action the executor has no strategy for.\<close>

definition sms_task :: task where
  "sms_task =
     (message_task ''u2'' ''2024-01-01T00:00:00Z'' (Some ''daily''))
       \<lparr>action := Some (JStr ''sms'')\<rparr>"

text \<open>The body of a create request for a webhook whose payload is the empty object.\<close>

definition webhook_request :: "error + json" where
  "webhook_request =
     Inr (JObj [(''action'', JStr ''webhook''), (''payload'', JObj []),
                (''run_at'', JStr ''2024-01-01T00:00:00Z'')])"

text \<open>
  A reading of \<^verbatim>\<open>datetime.utcnow()\<close>: naive, and every field within the digits
  \<^verbatim>\<open>isoformat\<close> prints it with.
\<close>

definition naive_reading :: "datetime \<Rightarrow> bool" where
  "naive_reading dt =
     (year dt < 10000 \<and> month dt < 100 \<and> day dt < 100 \<and> hour dt < 100 \<and>
      minute dt < 100 \<and> second dt < 100 \<and> microsecond dt < 1000000 \<and> tzinfo dt = None)"

text \<open>A stored recurring task whose \<open>updated_at\<close> was written at 12:00:00.\<close>

definition touched_task :: task where
  "touched_task =
     (message_task ''a'' ''2024-01-31T10:00:00Z'' (Some ''daily''))
       \<lparr>updated_at := Some ''2024-01-31T12:00:00Z''\<rparr>"

text \<open>
  What the executor records for a webhook whose stored payload has no \<^verbatim>\<open>url\<close> to give:
  the message of the url check for an object, and for any other value the
  \<^verbatim>\<open>AttributeError\<close> of \<^verbatim>\<open>payload.get\<close>.
\<close>

definition url_of :: "json \<Rightarrow> json option" where
  "url_of p = (case p of JObj d \<Rightarrow> dict_get d ''url'' | _ \<Rightarrow> None)"

definition missing_url_error :: "json \<Rightarrow> error" where
  "missing_url_error p =
     (case p of
        JObj d \<Rightarrow> ValueError ''Webhook URL is required''
      | v \<Rightarrow> no_attribute (stored_type_name v) ''get'')"

definition missing_url_text :: "json \<Rightarrow> string" where
  "missing_url_text p =
     (case p of
        JObj d \<Rightarrow> ''Webhook URL is required''
      | v \<Rightarrow>
          apostrophe @ stored_type_name v @ apostrophe @ '' object has no attribute '' @
          apostrophe @ ''get'' @ apostrophe)"

text \<open>The answer of a successful create.\<close>

definition created :: "string \<Rightarrow> response" where
  "created uuid =
     \<lparr>statusCode = 201,
      body = [(''message'', JStr ''Task scheduled successfully''), (''task_id'', JStr uuid)]\<rparr>"

section \<open>Facts about the table's operations\<close>

lemmas model_defs =
  execute_task_def try_block_def record_completed_def schedule_next_occurrence_def
  update_task_status_def update_item_def put_item_def query_def next_fault_def utcnow_def
  execute_message_def execute_webhook_def next_run_def replace_def fromisoformat_def
  str_replace_def parse_digits_def digits_def digit_val_def check_fields_def days_in_month_def
  is_leap_def isoformat_def format_offset_def strftime_Z_def digit_char_def set_status_def
  blank_item_def task_key_def handler_def add_timedelta_def next_day_def sort_by_run_at_def
  server_error_def dict_get_def written_def given_def schedule_task_def bad_request_def
  parse_isoformat_time_def is_sign_def NUL_def tzinfo_from_def field_def separator_length_def
  fraction_def str_of_def text_of_def unstorable_def contains_def subscript_def
  map_of_json_def failure_def no_attribute_def stored_type_name_def Let_def

lemmas example_defs = calm_def message_task_def noon_def sms_task_def webhook_request_def
  touched_task_def created_def

lemma pad_numeral [simp]:
  "pad (numeral k) n = pad (pred_numeral k) (n div 10) @ [digit_char n]"
  by (simp only: numeral_eq_Suc [of k] pad.simps)

lemma hms_numeral [simp]:
  "hms (numeral k) seg follow =
     (case digits 2 seg of
        None \<Rightarrow> None
      | Some v \<Rightarrow>
          (let c = (if 2 < length seg then seg ! 2 else follow)
           in if length seg \<le> 3 then Some ([v], 0, c \<noteq> NUL)
              else if c = CHR '':'' then
                map_option (\<lambda>(vs, us, cont). (v # vs, us, cont))
                  (hms (pred_numeral k) (drop 3 seg) follow)
              else if c = CHR ''.'' then
                map_option (\<lambda>(us, cont). ([v], us, cont)) (fraction (drop 3 seg) follow)
              else None))"
  by (simp only: numeral_eq_Suc [of k] hms.simps)

lemma update_task_status_Inr:
  assumes "update_task_status tid ra st msg w = (Inr u, w')"
  shows "table w' = written tid ra st (isoformat (clock w (reads w)) @ ''Z'') (given msg) (table w)"
    and "writes w' = writes w @ [UpdateItem tid ra st (given msg)]"
    and "faults w' = tl (faults w)"
    and "clock w' = clock w"
    and "http w' = http w"
    and "reads w' = Suc (reads w)"
    and "py_str w' = py_str w"
    and "py_repr w' = py_repr w"
  using assms
  by (auto simp: update_task_status_def update_item_def utcnow_def next_fault_def
           split: list.splits option.splits if_splits)

lemma update_task_status_succeeds:
  assumes "calls_succeed (Suc n) w"
  shows "\<exists>w'. update_task_status tid ra st msg w = (Inr (), w') \<and> calls_succeed n w'"
  using assms
  by (cases "faults w")
     (auto simp: update_task_status_def update_item_def utcnow_def next_fault_def
                 calls_succeed_def
           split: list.splits option.splits)

lemma task_key_set_status [simp]: "task_key (set_status st upd msg x) = task_key x"
  by (simp add: task_key_def set_status_def)

lemma task_key_blank_item [simp]: "task_key (blank_item tid ra) = (tid, ra)"
  by (simp add: task_key_def blank_item_def)

lemma set_status_fields:
  "status (set_status st upd msg x) = st"
  "updated_at (set_status st upd msg x) = Some upd"
  "error_message (set_status st upd (Some m) x) = Some m"
  by (simp_all add: set_status_def)

lemma written_keys:
  "map task_key (written tid ra st upd msg ts) =
     (if (tid, ra) \<in> set (map task_key ts) then map task_key ts
      else map task_key ts @ [(tid, ra)])"
proof -
  have "map task_key (map (\<lambda>x. if task_key x = (tid, ra) then set_status st upd msg x else x) ts) =
        map task_key ts"
    by (induction ts) simp_all
  then show ?thesis
    by (simp add: written_def)
qed

lemma written_has_key: "(tid, ra) \<in> set (map task_key (written tid ra st upd msg ts))"
  by (simp only: written_keys split: if_splits) simp

lemma written_status:
  assumes x: "x \<in> set (written tid ra st upd (Some m) ts)" and k: "task_key x = (tid, ra)"
  shows "status x = st \<and> updated_at x = Some upd \<and> error_message x = Some m"
proof (cases "(tid, ra) \<in> set (map task_key ts)")
  case True
  then obtain y where "y \<in> set ts"
      and xy: "x = (if task_key y = (tid, ra) then set_status st upd (Some m) y else y)"
    using x by (auto simp: written_def)
  then have "x = set_status st upd (Some m) y"
    using k by (cases "task_key y = (tid, ra)") simp_all
  then show ?thesis
    by (simp add: set_status_fields)
next
  case False
  then have "x \<in> set ts \<or> x = set_status st upd (Some m) (blank_item tid ra)"
    using x by (auto simp: written_def)
  moreover have "x \<notin> set ts"
    using False k by force
  ultimately show ?thesis
    by (simp add: set_status_fields)
qed

lemma written_others:
  "filter (\<lambda>x. task_key x \<noteq> (tid, ra)) (written tid ra st upd msg ts) =
   filter (\<lambda>x. task_key x \<noteq> (tid, ra)) ts"
proof -
  have "filter (\<lambda>x. task_key x \<noteq> (tid, ra))
          (map (\<lambda>x. if task_key x = (tid, ra) then set_status st upd msg x else x) ts) =
        filter (\<lambda>x. task_key x \<noteq> (tid, ra)) ts"
    by (induction ts) auto
  then show ?thesis
    by (simp add: written_def)
qed

lemma put_item_Inr:
  assumes "put_item item w = (Inr u, w')"
  shows "table w' = filter (\<lambda>x. task_key x \<noteq> task_key item) (table w) @ [item]"
    and "writes w' = writes w @ [PutItem item]"
    and "unstorable item = None"
  using assms
  by (auto simp: put_item_def next_fault_def split: list.splits option.splits)

lemma put_item_succeeds:
  assumes "unstorable item = None" and "calls_succeed (Suc n) w"
  shows "\<exists>w'. put_item item w = (Inr (), w') \<and> calls_succeed n w'"
  using assms
  by (cases "faults w")
     (auto simp: put_item_def next_fault_def calls_succeed_def split: list.splits option.splits)

lemma put_item_fails:
  assumes "\<not> (unstorable item = None \<and> calls_succeed (Suc 0) w)"
  shows "\<exists>e w'. put_item item w = (Inl e, w') \<and> table w' = table w"
  using assms
  by (cases "faults w")
     (auto simp: put_item_def next_fault_def calls_succeed_def split: list.splits option.splits)

lemma calls_succeed_reads [simp]:
  "calls_succeed n (w\<lparr>reads := k\<rparr>) = calls_succeed n w"
  by (simp add: calls_succeed_def)

lemma execute_webhook_no_url:
  "url_of p = None \<Longrightarrow> execute_webhook p w = Inl (missing_url_error p)"
  by (cases p) (simp_all add: execute_webhook_def url_of_def missing_url_error_def)

text \<open>\<^verbatim>\<open>isoformat\<close> prints different readings of the clock differently.\<close>

lemma length_pad [simp]: "length (pad w n) = w"
  by (induction w arbitrary: n) simp_all

lemma digit_char_inj: "digit_char n = digit_char m \<Longrightarrow> n mod 10 = m mod 10"
proof -
  assume e: "digit_char n = digit_char m"
  have d: "distinct ''0123456789''"
    by simp
  have "n mod 10 < length ''0123456789''" "m mod 10 < length ''0123456789''"
    by simp_all
  then show ?thesis
    using e d unfolding digit_char_def by (simp only: nth_eq_iff_index_eq)
qed

lemma pad_inj:
  "n < 10 ^ w \<Longrightarrow> m < 10 ^ w \<Longrightarrow> pad w n = pad w m \<Longrightarrow> n = m"
proof (induction w arbitrary: n m)
  case 0
  then show ?case by simp
next
  case (Suc w)
  from Suc.prems(3) have e1: "pad w (n div 10) = pad w (m div 10)"
    and e2: "digit_char n = digit_char m"
    by simp_all
  have "n div 10 < 10 ^ w" "m div 10 < 10 ^ w"
    using Suc.prems(1,2) by (simp_all add: less_mult_imp_div_less mult.commute)
  then have "n div 10 = m div 10"
    using Suc.IH e1 by blast
  moreover have "n mod 10 = m mod 10"
    using digit_char_inj [OF e2] .
  ultimately show ?case
    by (metis div_mult_mod_eq)
qed

lemma isoformat_inj:
  assumes a: "naive_reading a" and b: "naive_reading b" and e: "isoformat a = isoformat b"
  shows "a = b"
proof -
  let ?fa = "if microsecond a = 0 then [] else ''.'' @ pad 6 (microsecond a)"
  let ?fb = "if microsecond b = 0 then [] else ''.'' @ pad 6 (microsecond b)"
  have e': "pad 4 (year a) @ ''-'' @ pad 2 (month a) @ ''-'' @ pad 2 (day a) @ ''T'' @
            pad 2 (hour a) @ '':'' @ pad 2 (minute a) @ '':'' @ pad 2 (second a) @ ?fa =
            pad 4 (year b) @ ''-'' @ pad 2 (month b) @ ''-'' @ pad 2 (day b) @ ''T'' @
            pad 2 (hour b) @ '':'' @ pad 2 (minute b) @ '':'' @ pad 2 (second b) @ ?fb"
    using e a b unfolding isoformat_def naive_reading_def format_offset_def
    by (simp del: pad_numeral)
  have y: "pad 4 (year a) = pad 4 (year b)" and r1:
    "pad 2 (month a) @ ''-'' @ pad 2 (day a) @ ''T'' @
            pad 2 (hour a) @ '':'' @ pad 2 (minute a) @ '':'' @ pad 2 (second a) @ ?fa =
     pad 2 (month b) @ ''-'' @ pad 2 (day b) @ ''T'' @
            pad 2 (hour b) @ '':'' @ pad 2 (minute b) @ '':'' @ pad 2 (second b) @ ?fb"
    using e' by (simp_all del: pad_numeral)
  have mo: "pad 2 (month a) = pad 2 (month b)" and r2:
    "pad 2 (day a) @ ''T'' @
            pad 2 (hour a) @ '':'' @ pad 2 (minute a) @ '':'' @ pad 2 (second a) @ ?fa =
     pad 2 (day b) @ ''T'' @
            pad 2 (hour b) @ '':'' @ pad 2 (minute b) @ '':'' @ pad 2 (second b) @ ?fb"
    using r1 by (simp_all del: pad_numeral)
  have d: "pad 2 (day a) = pad 2 (day b)" and r3:
    "pad 2 (hour a) @ '':'' @ pad 2 (minute a) @ '':'' @ pad 2 (second a) @ ?fa =
     pad 2 (hour b) @ '':'' @ pad 2 (minute b) @ '':'' @ pad 2 (second b) @ ?fb"
    using r2 by (simp_all del: pad_numeral)
  have h: "pad 2 (hour a) = pad 2 (hour b)" and r4:
    "pad 2 (minute a) @ '':'' @ pad 2 (second a) @ ?fa =
     pad 2 (minute b) @ '':'' @ pad 2 (second b) @ ?fb"
    using r3 by (simp_all del: pad_numeral)
  have mi: "pad 2 (minute a) = pad 2 (minute b)" and r5:
    "pad 2 (second a) @ ?fa = pad 2 (second b) @ ?fb"
    using r4 by (simp_all del: pad_numeral)
  have s: "pad 2 (second a) = pad 2 (second b)" and f: "?fa = ?fb"
    using r5 by (simp_all del: pad_numeral)
  have us: "microsecond a = microsecond b"
  proof (cases "microsecond a = 0")
    case True
    then show ?thesis using f by (simp split: if_splits)
  next
    case False
    then have "microsecond b \<noteq> 0" using f by (auto split: if_splits)
    then have "pad 6 (microsecond a) = pad 6 (microsecond b)"
      using f False by (simp del: pad_numeral)
    then show ?thesis
      using pad_inj [of "microsecond a" 6 "microsecond b"] a b
      by (simp add: naive_reading_def del: pad_numeral)
  qed
  have "year a = year b"
    using pad_inj [OF _ _ y] a b by (simp add: naive_reading_def)
  moreover have "month a = month b"
    using pad_inj [OF _ _ mo] a b by (simp add: naive_reading_def)
  moreover have "day a = day b"
    using pad_inj [OF _ _ d] a b by (simp add: naive_reading_def)
  moreover have "hour a = hour b"
    using pad_inj [OF _ _ h] a b by (simp add: naive_reading_def)
  moreover have "minute a = minute b"
    using pad_inj [OF _ _ mi] a b by (simp add: naive_reading_def)
  moreover have "second a = second b"
    using pad_inj [OF _ _ s] a b by (simp add: naive_reading_def)
  moreover have "tzinfo a = tzinfo b"
    using a b by (simp add: naive_reading_def)
  ultimately show ?thesis
    using us by simp
qed


text \<open>What the executor records for a payload that gives no \<^verbatim>\<open>url\<close>, and the answers of
  the create operation.\<close>

lemma missing_url_printed:
  "str_of v (missing_url_error p) = missing_url_text p" "missing_url_text p \<noteq> []"
  by (cases p; simp add: missing_url_error_def missing_url_text_def str_of_def no_attribute_def
        apostrophe_def)+

lemma statusCode_failure [simp]: "statusCode (failure w e) = 500"
  by (cases e) (simp_all add: failure_def)

lemma contains_object:
  "contains (JObj kvs) k = Inr (map_of kvs k \<noteq> None)"
  by (simp add: contains_def map_of_eq_None_iff)

section \<open>The claims\<close>

text \<open>
  C1. The claim: after the write of \<^verbatim>\<open>completed\<close> or \<^verbatim>\<open>failed\<close> no further status write
  for that task occurs in the tick, also when the recurrence expansion raises. The code
  at a due task of action \<^verbatim>\<open>message\<close>, recurrence \<^verbatim>\<open>daily\<close> and
  \<open>run_at\<close> 2024-01-31T10:00:00Z, with a table that never fails: the expansion runs
  inside the \<^verbatim>\<open>try\<close> after \<^verbatim>\<open>completed\<close> is written, \<^verbatim>\<open>replace(day=32)\<close> raises, and the
  \<^verbatim>\<open>except\<close> clause writes \<^verbatim>\<open>failed\<close> on the completed task.
\<close>

theorem completed_task_marked_failed:
  "writes (snd (execute_task (message_task ''a'' ''2024-01-31T10:00:00Z'' (Some ''daily''))
                  (calm [message_task ''a'' ''2024-01-31T10:00:00Z'' (Some ''daily'')] []))) =
     [UpdateItem ''a'' ''2024-01-31T10:00:00Z'' ''running'' None,
      UpdateItem ''a'' ''2024-01-31T10:00:00Z'' ''completed'' None,
      UpdateItem ''a'' ''2024-01-31T10:00:00Z'' ''failed''
        (Some ''day is out of range for month'')]"
  by (simp add: model_defs example_defs)

text \<open>
  C2. The claim: a task whose \<open>run_at\<close> is in the future of the current UTC time is
  neither returned by the tick's query nor executed. The code compares \<open>run_at\<close> with
  the UTC clock advanced by 5 hours 30 minutes and printed with \<^verbatim>\<open>Z\<close>: with the clock
  at 2024-01-31 12:00:00 UTC, a task due at 17:00:00Z of that day (not yet due: it is
  not at most 12:00:00Z) is returned by the query for the bound 17:30:00Z, executed
  and left completed.
\<close>

theorem handler_runs_future_task:
  "isoformat (clock (calm [message_task ''a'' ''2024-01-31T17:00:00Z'' None] []) 0) =
     ''2024-01-31T12:00:00.000001'' \<and>
   \<not> str_le ''2024-01-31T17:00:00Z'' ''2024-01-31T12:00:00Z'' \<and>
   fst (handler (calm [message_task ''a'' ''2024-01-31T17:00:00Z'' None] [])) =
     \<lparr>statusCode = 200,
      body = [(''message'', JStr ''Processed 1 tasks''),
              (''timestamp'', JStr ''2024-01-31T17:30:00Z'')]\<rparr> \<and>
   map status (table (snd (handler (calm [message_task ''a'' ''2024-01-31T17:00:00Z'' None] [])))) =
     [''completed'']"
  by (simp add: model_defs example_defs)

text \<open>
  C3. The claim: \<^verbatim>\<open>daily\<close> yields the next calendar day for every valid date, 2024-02-01
  for 2024-01-31T10:00:00Z, and never raises. The code calls
  \<^verbatim>\<open>replace(day=current_time.day + 1)\<close>, which raises \<^verbatim>\<open>ValueError\<close> on the last day of
  a month: at 2024-01-31T10:00:00Z the calculation raises and no successor is stored.
\<close>

theorem daily_raises_at_month_end:
  "next_run ''daily''
     \<lparr>year = 2024, month = 1, day = 31, hour = 10, minute = 0, second = 0, microsecond = 0,
      tzinfo = Some UTC\<rparr> = Some (Inl (ValueError ''day is out of range for month'')) \<and>
   fst (schedule_next_occurrence (message_task ''a'' ''2024-01-31T10:00:00Z'' (Some ''daily''))
          (calm [] [])) = Inl (ValueError ''day is out of range for month'') \<and>
   table (snd (schedule_next_occurrence (message_task ''a'' ''2024-01-31T10:00:00Z'' (Some ''daily''))
          (calm [] []))) = []"
  by (simp add: model_defs example_defs)

text \<open>
  C4. The claim: when the status write of one task raises, the executor goes on with
  the other due tasks of the tick. The code at two due tasks, with the table failing
  the write of \<^verbatim>\<open>running\<close> for the first and the write of \<^verbatim>\<open>failed\<close> that the \<^verbatim>\<open>except\<close>
  clause then makes: the second error leaves \<^verbatim>\<open>execute_task\<close>, the handler answers 500,
  and the second task is never touched (no write at all, both tasks still scheduled,
  although the table would have served every later call).
\<close>

theorem failed_write_aborts_tick:
  "fst (handler (calm [message_task ''a'' ''2024-01-31T10:00:00Z'' None,
                       message_task ''b'' ''2024-01-31T11:00:00Z'' None]
                      [None, Some (ClientError ''throttled''), Some (ClientError ''throttled'')])) =
     \<lparr>statusCode = 500, body = [(''error'', JStr ''throttled'')]\<rparr> \<and>
   writes (snd (handler (calm [message_task ''a'' ''2024-01-31T10:00:00Z'' None,
                               message_task ''b'' ''2024-01-31T11:00:00Z'' None]
                              [None, Some (ClientError ''throttled''), Some (ClientError ''throttled'')]))) = [] \<and>
   faults (snd (handler (calm [message_task ''a'' ''2024-01-31T10:00:00Z'' None,
                               message_task ''b'' ''2024-01-31T11:00:00Z'' None]
                              [None, Some (ClientError ''throttled''), Some (ClientError ''throttled'')]))) = [] \<and>
   map status (table (snd (handler (calm [message_task ''a'' ''2024-01-31T10:00:00Z'' None,
                               message_task ''b'' ''2024-01-31T11:00:00Z'' None]
                              [None, Some (ClientError ''throttled''), Some (ClientError ''throttled'')])))) =
     [''scheduled'', ''scheduled'']"
  by (simp add: model_defs example_defs)

text \<open>
  C5. The claim: \<^verbatim>\<open>monthly\<close> yields the same day of the next month (2025-01-15 for
  2024-12-15T10:00:00Z) and clamps to the last day of the target month when the day
  does not exist there. The code does the first and not the second:
  \<^verbatim>\<open>replace(month=2)\<close> on 2024-01-31 raises \<^verbatim>\<open>ValueError\<close> instead of giving 2024-02-29.
\<close>

theorem monthly_raises_on_day_overflow:
  "next_run ''monthly''
     \<lparr>year = 2024, month = 1, day = 31, hour = 10, minute = 0, second = 0, microsecond = 0,
      tzinfo = Some UTC\<rparr> = Some (Inl (ValueError ''day is out of range for month'')) \<and>
   fst (schedule_next_occurrence (message_task ''a'' ''2024-01-31T10:00:00Z'' (Some ''monthly''))
          (calm [] [])) = Inl (ValueError ''day is out of range for month'') \<and>
   map run_at (table (snd (schedule_next_occurrence
          (message_task ''a'' ''2024-12-15T10:00:00Z'' (Some ''monthly'')) (calm [] [])))) =
     [''2025-01-15T10:00:00Z'']"
  by (simp add: model_defs example_defs)

text \<open>
  C6. Recurrence expansion is idempotent. When an expansion of a task has succeeded and
  the table serves the next call, a second expansion of the same task succeeds too and
  leaves the keys of the table as they were. For the patterns \<^verbatim>\<open>daily\<close>, \<^verbatim>\<open>weekly\<close> and
  \<^verbatim>\<open>monthly\<close>: each expansion makes exactly one \<^verbatim>\<open>put_item\<close>; the successor's \<open>run_at\<close>
  is the next run printed (for the task's \<open>run_at\<close> as \<^verbatim>\<open>fromisoformat\<close> reads it), its
  \<open>task_id\<close> is the parent's \<open>task_id\<close>, a hyphen and that \<open>run_at\<close>, the same in
  both expansions; it is stored as scheduled with the parent's action, payload and
  recurrence, no \<open>error_message\<close>, and the parent's id as \<open>parent_task_id\<close>; the
  record of the second expansion is that of the first but for \<open>created_at\<close> and
  \<open>updated_at\<close>; the first expansion puts it in place of whatever the table held
  under its key, the second replaces it, so every other item is as before and exactly
  one item is under the successor's key. For any
  other recurrence value (the only case where the code returns without a write), neither
  expansion writes anything and the table is unchanged.
\<close>

theorem expansion_twice_one_successor:
  assumes r1: "schedule_next_occurrence t w = (Inr (), w1)"
      and ok: "calls_succeed 1 w1"
  shows "\<exists>w2. schedule_next_occurrence t w1 = (Inr (), w2) \<and>
           map task_key (table w2) = map task_key (table w1) \<and>
           (if recurrence t = Some (JStr ''daily'') \<or> recurrence t = Some (JStr ''weekly'') \<or>
               recurrence t = Some (JStr ''monthly'')
            then \<exists>r ct nr s1 s2.
                   recurrence t = Some (JStr r) \<and>
                   fromisoformat (str_replace ''Z'' ''+00:00'' (run_at t)) = Inr ct \<and>
                   next_run r ct = Some (Inr nr) \<and>
                   writes w1 = writes w @ [PutItem s1] \<and>
                   writes w2 = writes w1 @ [PutItem s2] \<and>
                   run_at s1 = str_replace ''+00:00'' ''Z'' (isoformat nr) \<and>
                   task_id s1 = task_id t @ ''-'' @ run_at s1 \<and>
                   task_id s2 = task_id s1 \<and> run_at s2 = run_at s1 \<and>
                   status s1 = ''scheduled'' \<and> parent_task_id s1 = Some (task_id t) \<and>
                   action s1 = action t \<and> payload s1 = payload t \<and>
                   recurrence s1 = recurrence t \<and> error_message s1 = None \<and>
                   s2 = s1\<lparr>created_at := created_at s2, updated_at := updated_at s2\<rparr> \<and>
                   table w1 = filter (\<lambda>x. task_key x \<noteq> task_key s1) (table w) @ [s1] \<and>
                   table w2 = filter (\<lambda>x. task_key x \<noteq> task_key s1) (table w) @ [s2] \<and>
                   length (filter (\<lambda>x. task_key x = task_key s1) (table w2)) = 1
            else writes w1 = writes w \<and> table w1 = table w \<and>
                 writes w2 = writes w \<and> table w2 = table w)"
proof -
  obtain rv where rec: "recurrence t = Some rv"
    using r1 by (auto simp: schedule_next_occurrence_def split: option.splits)
  obtain ct where ct: "fromisoformat (str_replace ''Z'' ''+00:00'' (run_at t)) = Inr ct"
    using r1 rec by (auto simp: schedule_next_occurrence_def split: sum.splits)
  let ?supported = "recurrence t = Some (JStr ''daily'') \<or> recurrence t = Some (JStr ''weekly'') \<or>
               recurrence t = Some (JStr ''monthly'')"
  let ?calc = "case rv of JStr pattern \<Rightarrow> next_run pattern ct | _ \<Rightarrow> None"
  have calc_None: "?calc = None" if "\<not> ?supported"
    using that rec by (cases rv) (auto simp: next_run_def)
  show ?thesis
  proof (cases ?supported)
    case False
    then have "schedule_next_occurrence t v = (Inr (), v)" for v
      using rec ct calc_None by (simp add: schedule_next_occurrence_def)
    then show ?thesis
      using r1 False by auto
  next
    case True
    then obtain r where r: "rv = JStr r"
      using rec by auto
    obtain res where res: "next_run r ct = Some res"
      using True rec r by (auto simp: next_run_def)
    obtain nr where nr: "res = Inr nr"
      using r1 rec ct r res by (cases res) (auto simp: schedule_next_occurrence_def)
    obtain a where a: "action t = Some a"
      using r1 rec ct r res nr
      by (cases "action t") (auto simp: schedule_next_occurrence_def Let_def)
    obtain p where p: "payload t = Some p"
      using r1 rec ct r res nr a
      by (cases "payload t") (auto simp: schedule_next_occurrence_def Let_def)
    define nra where "nra = str_replace ''+00:00'' ''Z'' (isoformat nr)"
    define item where "item v =
      \<lparr>task_id = task_id t @ ''-'' @ nra, run_at = nra, status = ''scheduled'',
       action = Some a, payload = Some p, recurrence = Some (JStr r),
       created_at = Some (isoformat (clock v (reads v)) @ ''Z''),
       updated_at = Some (isoformat (clock v (Suc (reads v))) @ ''Z''),
       error_message = None, parent_task_id = Some (task_id t)\<rparr>" for v :: world
    have run: "schedule_next_occurrence t v =
                 put_item (item v) (v\<lparr>reads := Suc (Suc (reads v))\<rparr>)" for v :: world
      using rec ct r res nr a p
      by (simp add: schedule_next_occurrence_def utcnow_def Let_def item_def nra_def)
    have key: "task_key (item v) = (task_id t @ ''-'' @ nra, nra)" for v :: world
      by (simp add: task_key_def item_def)
    have p1: "put_item (item w) (w\<lparr>reads := Suc (Suc (reads w))\<rparr>) = (Inr (), w1)"
      using r1 run by simp
    have "unstorable (item w) = None"
      using put_item_Inr(3) [OF p1] .
    then have storable: "unstorable (item w1) = None"
      by (simp add: unstorable_def item_def)
    obtain w2 where p2: "put_item (item w1) (w1\<lparr>reads := Suc (Suc (reads w1))\<rparr>) = (Inr (), w2)"
      using put_item_succeeds [OF storable, of 0 "w1\<lparr>reads := Suc (Suc (reads w1))\<rparr>"] ok
      by auto
    let ?k = "(task_id t @ ''-'' @ nra, nra)"
    have t1: "table w1 = filter (\<lambda>x. task_key x \<noteq> ?k) (table w) @ [item w]"
      using put_item_Inr(1) [OF p1] key by simp
    have t2: "table w2 = filter (\<lambda>x. task_key x \<noteq> ?k) (table w) @ [item w1]"
      using put_item_Inr(1) [OF p2] key t1 by simp
    have keys: "map task_key (table w2) = map task_key (table w1)"
      using t1 t2 key by simp
    have one: "length (filter (\<lambda>x. task_key x = task_key (item w)) (table w2)) = 1"
      using t2 key by simp
    have wr1: "writes w1 = writes w @ [PutItem (item w)]"
      using put_item_Inr(2) [OF p1] by simp
    have wr2: "writes w2 = writes w1 @ [PutItem (item w1)]"
      using put_item_Inr(2) [OF p2] by simp
    have ids: "task_id (item w1) = task_id (item w)" "run_at (item w1) = run_at (item w)"
      "task_id (item w) = task_id t @ ''-'' @ run_at (item w)"
      "parent_task_id (item w) = Some (task_id t)"
      "run_at (item w) = str_replace ''+00:00'' ''Z'' (isoformat nr)"
      "status (item w) = ''scheduled''" "action (item w) = action t"
      "payload (item w) = payload t" "recurrence (item w) = recurrence t"
      "error_message (item w) = None"
      "item w1 = (item w)\<lparr>created_at := created_at (item w1), updated_at := updated_at (item w1)\<rparr>"
      using a p rec r by (simp_all add: item_def nra_def)
    have tabs: "table w1 = filter (\<lambda>x. task_key x \<noteq> task_key (item w)) (table w) @ [item w]"
      "table w2 = filter (\<lambda>x. task_key x \<noteq> task_key (item w)) (table w) @ [item w1]"
      using t1 t2 key by simp_all
    have second: "schedule_next_occurrence t w1 = (Inr (), w2)"
      using run p2 by simp
    have "\<exists>r ct nr s1 s2.
                   recurrence t = Some (JStr r) \<and>
                   fromisoformat (str_replace ''Z'' ''+00:00'' (run_at t)) = Inr ct \<and>
                   next_run r ct = Some (Inr nr) \<and>
                   writes w1 = writes w @ [PutItem s1] \<and>
                   writes w2 = writes w1 @ [PutItem s2] \<and>
                   run_at s1 = str_replace ''+00:00'' ''Z'' (isoformat nr) \<and>
                   task_id s1 = task_id t @ ''-'' @ run_at s1 \<and>
                   task_id s2 = task_id s1 \<and> run_at s2 = run_at s1 \<and>
                   status s1 = ''scheduled'' \<and> parent_task_id s1 = Some (task_id t) \<and>
                   action s1 = action t \<and> payload s1 = payload t \<and>
                   recurrence s1 = recurrence t \<and> error_message s1 = None \<and>
                   s2 = s1\<lparr>created_at := created_at s2, updated_at := updated_at s2\<rparr> \<and>
                   table w1 = filter (\<lambda>x. task_key x \<noteq> task_key s1) (table w) @ [s1] \<and>
                   table w2 = filter (\<lambda>x. task_key x \<noteq> task_key s1) (table w) @ [s2] \<and>
                   length (filter (\<lambda>x. task_key x = task_key s1) (table w2)) = 1"
      using rec r ct res nr wr1 wr2 ids tabs one by blast
    then show ?thesis
      using second keys True by auto
  qed
qed

text \<open>The expansion of a daily task due 2024-01-30T10:00:00Z, run twice on an empty table.\<close>

theorem expansion_twice_one_successor_witness:
  "fst (schedule_next_occurrence (message_task ''a'' ''2024-01-30T10:00:00Z'' (Some ''daily''))
          (calm [] [])) = Inr () \<and>
   calls_succeed 1
     (snd (schedule_next_occurrence (message_task ''a'' ''2024-01-30T10:00:00Z'' (Some ''daily''))
             (calm [] []))) \<and>
   (\<exists>w2 s1 s2.
      schedule_next_occurrence (message_task ''a'' ''2024-01-30T10:00:00Z'' (Some ''daily''))
        (snd (schedule_next_occurrence
                (message_task ''a'' ''2024-01-30T10:00:00Z'' (Some ''daily'')) (calm [] []))) =
        (Inr (), w2) \<and>
      writes w2 = [PutItem s1, PutItem s2] \<and>
      task_id s1 = ''a-2024-01-31T10:00:00Z'' \<and> run_at s1 = ''2024-01-31T10:00:00Z'' \<and>
      task_id s2 = ''a-2024-01-31T10:00:00Z'' \<and> run_at s2 = ''2024-01-31T10:00:00Z'' \<and>
      parent_task_id s1 = Some ''a'' \<and> status s1 = ''scheduled'' \<and>
      action s2 = Some (JStr ''message'') \<and> payload s2 = Some (JObj []) \<and>
      recurrence s2 = Some (JStr ''daily'') \<and> status s2 = ''scheduled'' \<and>
      parent_task_id s2 = Some ''a'' \<and>
      table w2 = [s2] \<and>
      map task_key (table w2) = [(''a-2024-01-31T10:00:00Z'', ''2024-01-31T10:00:00Z'')])"
proof -
  let ?t = "message_task ''a'' ''2024-01-30T10:00:00Z'' (Some ''daily'')"
  let ?r = "schedule_next_occurrence ?t (calm [] [])"
  have f: "fst ?r = Inr ()"
    by (simp add: model_defs example_defs)
  then have r1: "?r = (Inr (), snd ?r)"
    by (simp add: prod_eq_iff)
  have ok: "calls_succeed 1 (snd ?r)"
    by (simp add: model_defs example_defs calls_succeed_def)
  have sup: "recurrence ?t = Some (JStr ''daily'')" and tid: "task_id ?t = ''a''"
    by (simp_all add: message_task_def)
  have ct: "fromisoformat (str_replace ''Z'' ''+00:00'' (run_at ?t)) =
              Inr \<lparr>year = 2024, month = 1, day = 30, hour = 10, minute = 0, second = 0,
                   microsecond = 0, tzinfo = Some UTC\<rparr>"
    by (simp add: model_defs example_defs)
  have nr: "next_run ''daily'' \<lparr>year = 2024, month = 1, day = 30, hour = 10, minute = 0,
                second = 0, microsecond = 0, tzinfo = Some UTC\<rparr> =
              Some (Inr \<lparr>year = 2024, month = 1, day = 31, hour = 10, minute = 0, second = 0,
                          microsecond = 0, tzinfo = Some UTC\<rparr>)"
    by (simp add: model_defs)
  have printed: "str_replace ''+00:00'' ''Z''
               (isoformat \<lparr>year = 2024, month = 1, day = 31, hour = 10, minute = 0, second = 0,
                           microsecond = 0, tzinfo = Some UTC\<rparr>) = ''2024-01-31T10:00:00Z''"
    by (simp add: model_defs)
  have w0: "writes (calm [] []) = []" "table (calm [] []) = []"
    by (simp_all add: calm_def)
  have copied: "action ?t = Some (JStr ''message'')" "payload ?t = Some (JObj [])"
    by (simp_all add: message_task_def)
  obtain w2 r c n s1 s2 where run:
    "schedule_next_occurrence ?t (snd ?r) = (Inr (), w2)"
    "map task_key (table w2) = map task_key (table (snd ?r))"
    "recurrence ?t = Some (JStr r)"
    "fromisoformat (str_replace ''Z'' ''+00:00'' (run_at ?t)) = Inr c"
    "next_run r c = Some (Inr n)"
    "writes (snd ?r) = writes (calm [] []) @ [PutItem s1]"
    "writes w2 = writes (snd ?r) @ [PutItem s2]"
    "run_at s1 = str_replace ''+00:00'' ''Z'' (isoformat n)"
    "task_id s1 = task_id ?t @ ''-'' @ run_at s1"
    "task_id s2 = task_id s1" "run_at s2 = run_at s1"
    "status s1 = ''scheduled''" "parent_task_id s1 = Some (task_id ?t)"
    "table w2 = filter (\<lambda>x. task_key x \<noteq> task_key s1) (table (calm [] [])) @ [s2]"
    and content: "action s1 = action ?t" "payload s1 = payload ?t" "recurrence s1 = recurrence ?t"
    and eq: "s2 = s1\<lparr>created_at := created_at s2, updated_at := updated_at s2\<rparr>"
    using expansion_twice_one_successor [OF r1 ok] sup by auto
  have same: "action s2 = action s1" "payload s2 = payload s1" "recurrence s2 = recurrence s1"
    "status s2 = status s1" "parent_task_id s2 = parent_task_id s1"
    by (subst eq, simp)+
  show ?thesis
    using run content same copied f ok sup tid ct nr printed w0 by (auto simp: task_key_def)
qed

text \<open>
  C7. The claim: a webhook task whose payload has no \<^verbatim>\<open>url\<close> is rejected by the create
  operation with a 4xx response and never reaches the executor. The code: the create
  operation checks that \<^verbatim>\<open>action\<close>, \<^verbatim>\<open>payload\<close> and \<^verbatim>\<open>run_at\<close> are present and that
  \<^verbatim>\<open>run_at\<close> parses, nothing else; a webhook request with the empty payload is answered
  201 and stored as scheduled, and the next tick picks it up and marks it failed.
\<close>

theorem create_accepts_webhook_without_url:
  "url_of (JObj []) = None \<and>
   fst (schedule_task webhook_request ''u1'' (calm [] [])) =
     \<lparr>statusCode = 201,
      body = [(''message'', JStr ''Task scheduled successfully''), (''task_id'', JStr ''u1'')]\<rparr> \<and>
   map (\<lambda>x. (task_id x, action x, payload x, status x))
     (table (snd (schedule_task webhook_request ''u1'' (calm [] [])))) =
     [(''u1'', Some (JStr ''webhook''), Some (JObj []), ''scheduled'')] \<and>
   map (\<lambda>x. (task_id x, status x, error_message x))
     (table (snd (handler (snd (schedule_task webhook_request ''u1'' (calm [] [])))))) =
     [(''u1'', ''failed'', Some ''Webhook URL is required'')]"
  by (simp add: model_defs example_defs url_of_def)

text \<open>
  C7, as the code has it. Take a create request whose body is an object with the action
  \<^verbatim>\<open>webhook\<close>, a \<^verbatim>\<open>run_at\<close> that parses, and a payload that gives no \<^verbatim>\<open>url\<close>: an object
  without that member, or any value that is not an object. It is never answered with a
  4xx. When boto3 can write the payload and the recurrence (no float and no number of
  more than 38 digits in them) and the table serves the write, the answer is 201 and the
  task is stored as scheduled with its payload; otherwise the answer is 500 and the table
  is unchanged. The missing \<^verbatim>\<open>url\<close> is found at dispatch: whenever the executor runs the
  stored task and the table serves its two writes, the task is written \<^verbatim>\<open>running\<close> and
  then \<^verbatim>\<open>failed\<close>, with the message \<^verbatim>\<open>Webhook URL is required\<close> for an object and the
  \<^verbatim>\<open>AttributeError\<close> of \<^verbatim>\<open>payload.get\<close> for another value (\<open>missing_url_text\<close>), and no
  exception leaves \<^verbatim>\<open>execute_task\<close>.
\<close>

theorem webhook_without_url_accepted_then_failed:
  assumes act: "map_of kvs ''action'' = Some (JStr ''webhook'')"
      and pay: "map_of kvs ''payload'' = Some p"
      and nourl: "url_of p = None"
      and ra: "map_of kvs ''run_at'' = Some (JStr ra)"
      and parse: "fromisoformat (str_replace ''Z'' ''+00:00'' ra) = Inr dt"
  shows "if refusal_list (p # (case map_of kvs ''recurrence'' of None \<Rightarrow> [] | Some r \<Rightarrow> [r])) = None \<and>
            calls_succeed 1 w
         then \<exists>w' t. schedule_task (Inr (JObj kvs)) uuid w = (created uuid, w') \<and>
                t \<in> set (table w') \<and> task_id t = uuid \<and> run_at t = ra \<and>
                status t = ''scheduled'' \<and> action t = Some (JStr ''webhook'') \<and>
                payload t = Some p \<and>
                (\<forall>v. calls_succeed 2 v \<longrightarrow>
                   (\<exists>v'. execute_task t v = (Inr (), v') \<and>
                         writes v' = writes v @
                           [UpdateItem uuid ra ''running'' None,
                            UpdateItem uuid ra ''failed'' (Some (missing_url_text p))]))
         else statusCode (fst (schedule_task (Inr (JObj kvs)) uuid w)) = 500 \<and>
              table (snd (schedule_task (Inr (JObj kvs)) uuid w)) = table w"
proof -
  define now where "now = isoformat (clock w (reads w)) @ ''Z''"
  define t where "t =
    \<lparr>task_id = uuid, run_at = ra, status = ''scheduled'', action = Some (JStr ''webhook''),
     payload = Some p, recurrence = map_of kvs ''recurrence'', created_at = Some now,
     updated_at = Some now, error_message = None, parent_task_id = None\<rparr>"
  let ?w1 = "w\<lparr>reads := Suc (reads w)\<rparr>"
  have present: "first_missing (JObj kvs) [''action'', ''payload'', ''run_at''] = Inr None"
    using act pay ra by (simp add: contains_object)
  have rec: "(if map_of kvs ''recurrence'' \<noteq> None then map_of_json (JObj kvs) ''recurrence''
              else None) = map_of kvs ''recurrence''"
    by (simp add: map_of_json_def)
  have run: "schedule_task (Inr (JObj kvs)) uuid w =
               (case put_item t ?w1 of
                  (Inl e, w2) \<Rightarrow> (failure w2 e, w2)
                | (Inr u, w2) \<Rightarrow> (created uuid, w2))"
    unfolding created_def using act pay ra parse present rec
    by (simp add: schedule_task_def utcnow_def subscript_def contains_object t_def now_def)
  have uns: "unstorable t =
     refusal_list (p # (case map_of kvs ''recurrence'' of None \<Rightarrow> [] | Some r \<Rightarrow> [r]))"
    by (simp add: unstorable_def t_def)
  have fields: "task_id t = uuid" "run_at t = ra" "status t = ''scheduled''"
    "action t = Some (JStr ''webhook'')" "payload t = Some p"
    by (simp_all add: t_def)
  have dispatch: "\<exists>v'. execute_task t v = (Inr (), v') \<and>
                  writes v' = writes v @
                    [UpdateItem uuid ra ''running'' None,
                     UpdateItem uuid ra ''failed'' (Some (missing_url_text p))]"
    if v: "calls_succeed 2 v" for v
  proof -
    have v2: "calls_succeed (Suc (Suc 0)) v"
      using v by (simp add: numeral_2_eq_2)
    obtain v1 where r1: "update_task_status uuid ra ''running'' None v = (Inr (), v1)"
        and ok1: "calls_succeed (Suc 0) v1"
      using update_task_status_succeeds [OF v2] by blast
    obtain v2 where r2: "update_task_status uuid ra ''failed''
                            (Some (missing_url_text p)) v1 = (Inr (), v2)"
      using update_task_status_succeeds [OF ok1] by blast
    have tb: "try_block t (JStr ''webhook'') p v = (Inl (missing_url_error p), v1)"
      using r1 execute_webhook_no_url [OF nourl] fields by (simp add: try_block_def)
    have ex: "execute_task t v = (Inr (), v2)"
      using tb r2 fields by (simp add: execute_task_def missing_url_printed(1))
    have "writes v2 = writes v @
            [UpdateItem uuid ra ''running'' None,
             UpdateItem uuid ra ''failed'' (Some (missing_url_text p))]"
      using update_task_status_Inr(2) [OF r1] update_task_status_Inr(2) [OF r2]
        missing_url_printed(2) [of p]
      by (simp add: given_def)
    then show ?thesis
      using ex by blast
  qed
  show ?thesis
  proof (cases "unstorable t = None \<and> calls_succeed (Suc 0) ?w1")
    case True
    then obtain w' where put: "put_item t ?w1 = (Inr (), w')"
      using put_item_succeeds [of t 0 ?w1] by blast
    have "schedule_task (Inr (JObj kvs)) uuid w = (created uuid, w')"
      using run put by simp
    moreover have "t \<in> set (table w')"
      using put_item_Inr(1) [OF put] by simp
    ultimately show ?thesis
      using True uns fields dispatch by auto
  next
    case False
    then obtain e w' where put: "put_item t ?w1 = (Inl e, w')" and same: "table w' = table ?w1"
      using put_item_fails [of t ?w1] by blast
    have "schedule_task (Inr (JObj kvs)) uuid w = (failure w' e, w')"
      using run put by simp
    then show ?thesis
      using False uns same by auto
  qed
qed

text \<open>The request with the empty payload, created on an empty table and then executed;
  and a request whose payload is the number 0.5, which boto3 refuses to store.\<close>

theorem webhook_without_url_accepted_then_failed_witness:
  "map_of [(''action'', JStr ''webhook''), (''payload'', JObj []),
           (''run_at'', JStr ''2024-01-01T00:00:00Z'')] ''action'' = Some (JStr ''webhook'') \<and>
   map_of [(''action'', JStr ''webhook''), (''payload'', JObj []),
           (''run_at'', JStr ''2024-01-01T00:00:00Z'')] ''payload'' = Some (JObj []) \<and>
   url_of (JObj []) = None \<and>
   map_of [(''action'', JStr ''webhook''), (''payload'', JObj []),
           (''run_at'', JStr ''2024-01-01T00:00:00Z'')] ''run_at'' =
     Some (JStr ''2024-01-01T00:00:00Z'') \<and>
   fromisoformat (str_replace ''Z'' ''+00:00'' ''2024-01-01T00:00:00Z'') =
     Inr \<lparr>year = 2024, month = 1, day = 1, hour = 0, minute = 0, second = 0,
          microsecond = 0, tzinfo = Some UTC\<rparr> \<and>
   refusal_list
     (JObj [] #
      (case map_of [(''action'', JStr ''webhook''), (''payload'', JObj []),
                    (''run_at'', JStr ''2024-01-01T00:00:00Z'')] ''recurrence'' of
         None \<Rightarrow> [] | Some r \<Rightarrow> [r])) = None \<and>
   calls_succeed 1 (calm [] []) \<and>
   (\<exists>w' t. schedule_task webhook_request ''u1'' (calm [] []) = (created ''u1'', w') \<and>
            t \<in> set (table w') \<and> task_id t = ''u1'' \<and> status t = ''scheduled'' \<and>
            payload t = Some (JObj []) \<and>
            fst (execute_task t (calm [t] [])) = Inr () \<and>
            writes (snd (execute_task t (calm [t] []))) =
              [UpdateItem ''u1'' ''2024-01-01T00:00:00Z'' ''running'' None,
               UpdateItem ''u1'' ''2024-01-01T00:00:00Z'' ''failed''
                 (Some ''Webhook URL is required'')]) \<and>
   url_of (JFloat (Finite 1 (- 1))) = None \<and>
   statusCode
     (fst (schedule_task
             (Inr (JObj [(''action'', JStr ''webhook''), (''payload'', JFloat (Finite 1 (- 1))),
                         (''run_at'', JStr ''2024-01-01T00:00:00Z'')]))
             ''u2'' (calm [] []))) = 500 \<and>
   table
     (snd (schedule_task
             (Inr (JObj [(''action'', JStr ''webhook''), (''payload'', JFloat (Finite 1 (- 1))),
                         (''run_at'', JStr ''2024-01-01T00:00:00Z'')]))
             ''u2'' (calm [] []))) = []"
proof -
  let ?kvs = "[(''action'', JStr ''webhook''), (''payload'', JObj []),
               (''run_at'', JStr ''2024-01-01T00:00:00Z'')]"
  let ?half = "JFloat (Finite 1 (- 1))"
  let ?kvs2 = "[(''action'', JStr ''webhook''), (''payload'', ?half),
                (''run_at'', JStr ''2024-01-01T00:00:00Z'')]"
  have act2: "map_of ?kvs2 ''action'' = Some (JStr ''webhook'')"
    and pay2: "map_of ?kvs2 ''payload'' = Some ?half"
    and ra2: "map_of ?kvs2 ''run_at'' = Some (JStr ''2024-01-01T00:00:00Z'')"
    by simp_all
  have nourl2: "url_of ?half = None"
    by (simp add: url_of_def)
  have refused: "refusal_list
     (?half # (case map_of ?kvs2 ''recurrence'' of None \<Rightarrow> [] | Some r \<Rightarrow> [r])) \<noteq> None"
    by simp
  have empty: "table (calm [] []) = []"
    by (simp add: calm_def)
  have act: "map_of ?kvs ''action'' = Some (JStr ''webhook'')"
    and pay: "map_of ?kvs ''payload'' = Some (JObj [])"
    and ra: "map_of ?kvs ''run_at'' = Some (JStr ''2024-01-01T00:00:00Z'')"
    by simp_all
  have nourl: "url_of (JObj []) = None"
    by (simp add: url_of_def dict_get_def)
  have parse: "fromisoformat (str_replace ''Z'' ''+00:00'' ''2024-01-01T00:00:00Z'') =
     Inr \<lparr>year = 2024, month = 1, day = 1, hour = 0, minute = 0, second = 0,
          microsecond = 0, tzinfo = Some UTC\<rparr>"
    by (simp add: model_defs)
  have st: "refusal_list
     (JObj [] # (case map_of ?kvs ''recurrence'' of None \<Rightarrow> [] | Some r \<Rightarrow> [r])) = None"
    by simp
  have ok: "calls_succeed 1 (calm [] [])"
    by (simp add: calls_succeed_def calm_def)
  have ok2: "calls_succeed 2 (calm [t] [])" for t
    by (simp add: calls_succeed_def calm_def)
  have wr: "writes (calm [t] []) = []" for t
    by (simp add: calm_def)
  have msg: "missing_url_text (JObj []) = ''Webhook URL is required''"
    by (simp add: missing_url_text_def)
  have req: "webhook_request = Inr (JObj ?kvs)"
    by (simp add: webhook_request_def)
  obtain w' t where
    "schedule_task (Inr (JObj ?kvs)) ''u1'' (calm [] []) = (created ''u1'', w')"
    "t \<in> set (table w')" "task_id t = ''u1''" "status t = ''scheduled''"
    "payload t = Some (JObj [])"
    "\<forall>v. calls_succeed 2 v \<longrightarrow>
                   (\<exists>v'. execute_task t v = (Inr (), v') \<and>
                         writes v' = writes v @
                           [UpdateItem ''u1'' ''2024-01-01T00:00:00Z'' ''running'' None,
                            UpdateItem ''u1'' ''2024-01-01T00:00:00Z'' ''failed''
                              (Some (missing_url_text (JObj [])))])"
    using webhook_without_url_accepted_then_failed
            [OF act pay nourl ra parse, of "calm [] []" "''u1''"] st ok
    by auto
  then have accepted: "\<exists>w' t. schedule_task webhook_request ''u1'' (calm [] []) = (created ''u1'', w') \<and>
            t \<in> set (table w') \<and> task_id t = ''u1'' \<and> status t = ''scheduled'' \<and>
            payload t = Some (JObj []) \<and>
            fst (execute_task t (calm [t] [])) = Inr () \<and>
            writes (snd (execute_task t (calm [t] []))) =
              [UpdateItem ''u1'' ''2024-01-01T00:00:00Z'' ''running'' None,
               UpdateItem ''u1'' ''2024-01-01T00:00:00Z'' ''failed''
                 (Some ''Webhook URL is required'')]"
    using ok2 wr msg req
    by (metis append_Nil fst_conv snd_conv)
  have refusedly: "statusCode (fst (schedule_task (Inr (JObj ?kvs2)) ''u2'' (calm [] []))) = 500 \<and>
        table (snd (schedule_task (Inr (JObj ?kvs2)) ''u2'' (calm [] []))) = []"
    using webhook_without_url_accepted_then_failed
            [OF act2 pay2 nourl2 ra2 parse, of "calm [] []" "''u2''"] refused empty
    by simp
  show ?thesis
    using act pay nourl ra parse st ok accepted nourl2 refusedly by simp
qed

text \<open>
  C8. A status write changes, on the item under the key, the status, \<open>updated_at\<close>
  and, only when a non-empty message is given, \<open>error_message\<close>; \<open>task_id\<close>,
  \<open>action\<close>, \<open>payload\<close>, \<open>run_at\<close>, \<open>recurrence\<close>, \<open>created_at\<close> and
  \<open>parent_task_id\<close> of every item are as before, and an item under another key is
  not changed at all. \<open>updated_at\<close> is set to the clock's reading at the write, so it
  changes whenever it held an earlier, different reading of the clock.
\<close>

theorem update_task_status_frame:
  assumes ok: "update_task_status tid ra st msg w = (Inr (), w')"
      and i: "i < length (table w)"
  shows "task_id (table w' ! i) = task_id (table w ! i) \<and>
         run_at (table w' ! i) = run_at (table w ! i) \<and>
         action (table w' ! i) = action (table w ! i) \<and>
         payload (table w' ! i) = payload (table w ! i) \<and>
         recurrence (table w' ! i) = recurrence (table w ! i) \<and>
         created_at (table w' ! i) = created_at (table w ! i) \<and>
         parent_task_id (table w' ! i) = parent_task_id (table w ! i) \<and>
         (if task_key (table w ! i) = (tid, ra)
          then status (table w' ! i) = st \<and>
               updated_at (table w' ! i) = Some (isoformat (clock w (reads w)) @ ''Z'') \<and>
               error_message (table w' ! i) =
                 (case msg of
                    None \<Rightarrow> error_message (table w ! i)
                  | Some m \<Rightarrow> if m = [] then error_message (table w ! i) else Some m) \<and>
               (\<forall>earlier. updated_at (table w ! i) = Some (isoformat earlier @ ''Z'') \<and>
                          naive_reading earlier \<and> naive_reading (clock w (reads w)) \<and>
                          earlier \<noteq> clock w (reads w) \<longrightarrow>
                          updated_at (table w' ! i) \<noteq> updated_at (table w ! i))
          else table w' ! i = table w ! i)"
proof -
  let ?now = "clock w (reads w)"
  let ?upd = "isoformat ?now @ ''Z''"
  have tab: "table w' = written tid ra st ?upd (given msg) (table w)"
    using update_task_status_Inr(1) [OF ok] .
  have fresh: "Some ?upd \<noteq> Some (isoformat earlier @ ''Z'')"
    if "naive_reading earlier" "naive_reading ?now" "earlier \<noteq> ?now" for earlier
    using that isoformat_inj [of earlier ?now] by auto
  show ?thesis
  proof (cases "(tid, ra) \<in> set (map task_key (table w))")
    case True
    then have "table w' ! i =
        (if task_key (table w ! i) = (tid, ra) then set_status st ?upd (given msg) (table w ! i)
         else table w ! i)"
      using tab i by (simp add: written_def)
    then show ?thesis
      using fresh
      by (auto simp: set_status_def given_def task_key_def split: option.splits)
  next
    case False
    then have "task_key (table w ! i) \<noteq> (tid, ra)"
      using i by (metis nth_map nth_mem length_map)
    moreover have "table w' ! i = table w ! i"
      using tab False i by (simp add: written_def nth_append)
    ultimately show ?thesis by simp
  qed
qed

text \<open>A write of \<^verbatim>\<open>failed\<close> with a message on that task, a microsecond after 12:00:00.\<close>

theorem update_task_status_frame_witness:
  "fst (update_task_status ''a'' ''2024-01-31T10:00:00Z'' ''failed'' (Some ''boom'')
          (calm [touched_task] [])) = Inr () \<and>
   0 < length (table (calm [touched_task] [])) \<and>
   task_key (table (calm [touched_task] []) ! 0) = (''a'', ''2024-01-31T10:00:00Z'') \<and>
   updated_at (table (calm [touched_task] []) ! 0) = Some (isoformat noon @ ''Z'') \<and>
   naive_reading noon \<and>
   naive_reading (clock (calm [touched_task] []) (reads (calm [touched_task] []))) \<and>
   noon \<noteq> clock (calm [touched_task] []) (reads (calm [touched_task] [])) \<and>
   (let x = table (snd (update_task_status ''a'' ''2024-01-31T10:00:00Z'' ''failed'' (Some ''boom'')
                          (calm [touched_task] []))) ! 0
    in status x = ''failed'' \<and> error_message x = Some ''boom'' \<and>
       updated_at x = Some ''2024-01-31T12:00:00.000001Z'' \<and>
       updated_at x \<noteq> updated_at (table (calm [touched_task] []) ! 0) \<and>
       action x = Some (JStr ''message'') \<and> payload x = Some (JObj []) \<and>
       recurrence x = Some (JStr ''daily'') \<and> created_at x = None \<and> parent_task_id x = None)"
proof -
  let ?w = "calm [touched_task] []"
  let ?r = "update_task_status ''a'' ''2024-01-31T10:00:00Z'' ''failed'' (Some ''boom'') ?w"
  have f: "fst ?r = Inr ()"
    by (simp add: model_defs example_defs)
  then have ok: "?r = (Inr (), snd ?r)"
    by (simp add: prod_eq_iff)
  have i: "0 < length (table ?w)"
    by (simp add: example_defs)
  have k: "task_key (table ?w ! 0) = (''a'', ''2024-01-31T10:00:00Z'')"
    by (simp add: example_defs task_key_def)
  have u: "updated_at (table ?w ! 0) = Some (isoformat noon @ ''Z'')"
    by (simp add: model_defs example_defs)
  have n: "naive_reading noon" "naive_reading (clock ?w (reads ?w))"
    "noon \<noteq> clock ?w (reads ?w)"
    by (simp_all add: naive_reading_def example_defs)
  have c: "isoformat (clock ?w (reads ?w)) @ ''Z'' = ''2024-01-31T12:00:00.000001Z''"
    by (simp add: model_defs example_defs)
  show ?thesis
    using f i k u n c update_task_status_frame [OF ok i]
    by (simp add: example_defs)
qed

text \<open>
  C9. A due task whose action is neither \<^verbatim>\<open>webhook\<close> nor \<^verbatim>\<open>message\<close> (any other string,
  or a value that is no string; and which has a payload, as every task this system
  stores has), run while the table serves the two writes: \<^verbatim>\<open>execute_task\<close> returns
  without an exception, so the loop of the tick goes on with the remaining tasks; the
  writes are exactly \<^verbatim>\<open>running\<close> and then \<^verbatim>\<open>failed\<close> with the message
  \<^verbatim>\<open>Unsupported action type: \<close> followed by the action as the f-string prints it (the
  action itself when it is a string); there is no second attempt and no \<^verbatim>\<open>put_item\<close> of
  a successor, whatever the task's recurrence; the item under the task's key ends failed
  with that message and the other items are as before.
\<close>

theorem unsupported_action_fails_once:
  assumes a: "action t = Some a" and p: "payload t = Some p"
      and nw: "a \<noteq> JStr ''webhook''" and nm: "a \<noteq> JStr ''message''"
      and ok: "calls_succeed 2 w"
  shows "\<exists>w'. execute_task t w = (Inr (), w') \<and>
           run_tasks (t # ts) w = run_tasks ts w' \<and>
           writes w' = writes w @
             [UpdateItem (task_id t) (run_at t) ''running'' None,
              UpdateItem (task_id t) (run_at t) ''failed''
                (Some (''Unsupported action type: '' @ text_of w a))] \<and>
           task_key t \<in> set (map task_key (table w')) \<and>
           (\<forall>x \<in> set (table w'). task_key x = task_key t \<longrightarrow>
              status x = ''failed'' \<and>
              error_message x = Some (''Unsupported action type: '' @ text_of w a)) \<and>
           filter (\<lambda>x. task_key x \<noteq> task_key t) (table w') =
           filter (\<lambda>x. task_key x \<noteq> task_key t) (table w)"
proof -
  let ?m = "''Unsupported action type: '' @ text_of w a"
  have ok2: "calls_succeed (Suc (Suc 0)) w"
    using ok by (simp add: numeral_2_eq_2)
  obtain w1 where r1: "update_task_status (task_id t) (run_at t) ''running'' None w = (Inr (), w1)"
      and ok1: "calls_succeed (Suc 0) w1"
    using update_task_status_succeeds [OF ok2] by blast
  have same: "text_of w1 a = text_of w a"
    using update_task_status_Inr(7) [OF r1] by (simp add: text_of_def split: json.splits)
  obtain w2 where r2: "update_task_status (task_id t) (run_at t) ''failed'' (Some ?m) w1 = (Inr (), w2)"
    using update_task_status_succeeds [OF ok1] by blast
  have tb: "try_block t a p w = (Inr (), w2)"
    using r1 r2 nw nm same by (simp add: try_block_def)
  have ex: "execute_task t w = (Inr (), w2)"
    using tb a p by (simp add: execute_task_def)
  have g: "given (Some ?m) = Some ?m" "given None = None"
    by (simp_all add: given_def)
  have wr: "writes w2 = writes w @
             [UpdateItem (task_id t) (run_at t) ''running'' None,
              UpdateItem (task_id t) (run_at t) ''failed'' (Some ?m)]"
    using update_task_status_Inr(2) [OF r1] update_task_status_Inr(2) [OF r2] g by simp
  obtain u1 u2 where tab: "table w2 =
      written (task_id t) (run_at t) ''failed'' u2 (Some ?m)
        (written (task_id t) (run_at t) ''running'' u1 None (table w))"
    using update_task_status_Inr(1) [OF r1] update_task_status_Inr(1) [OF r2] g by simp
  have key: "task_key t \<in> set (map task_key (table w2))"
    unfolding tab using written_has_key [of "task_id t" "run_at t"] by (simp add: task_key_def)
  have st: "\<forall>x \<in> set (table w2). task_key x = task_key t \<longrightarrow>
              status x = ''failed'' \<and> error_message x = Some ?m"
    unfolding tab using written_status [of _ "task_id t" "run_at t" "''failed''" u2 ?m]
    by (auto simp: task_key_def)
  have oth: "filter (\<lambda>x. task_key x \<noteq> task_key t) (table w2) =
             filter (\<lambda>x. task_key x \<noteq> task_key t) (table w)"
    unfolding tab using written_others [of "task_id t" "run_at t"] by (simp add: task_key_def)
  have rt: "run_tasks (t # ts) w = run_tasks ts w2"
    using ex by simp
  show ?thesis
    using ex rt wr key st oth by blast
qed

text \<open>A recurring task of action \<^verbatim>\<open>sms\<close>.\<close>

theorem unsupported_action_fails_once_witness:
  "action sms_task = Some (JStr ''sms'') \<and> payload sms_task = Some (JObj []) \<and>
   JStr ''sms'' \<noteq> JStr ''webhook'' \<and> JStr ''sms'' \<noteq> JStr ''message'' \<and>
   calls_succeed 2 (calm [sms_task] []) \<and>
   fst (execute_task sms_task (calm [sms_task] [])) = Inr () \<and>
   writes (snd (execute_task sms_task (calm [sms_task] []))) =
     [UpdateItem ''u2'' ''2024-01-01T00:00:00Z'' ''running'' None,
      UpdateItem ''u2'' ''2024-01-01T00:00:00Z'' ''failed'' (Some ''Unsupported action type: sms'')]"
proof -
  have a: "action sms_task = Some (JStr ''sms'')" and p: "payload sms_task = Some (JObj [])"
    by (simp_all add: sms_task_def message_task_def)
  have nw: "JStr ''sms'' \<noteq> JStr ''webhook''" and nm: "JStr ''sms'' \<noteq> JStr ''message''"
    by simp_all
  have ok: "calls_succeed 2 (calm [sms_task] [])"
    by (simp add: calls_succeed_def calm_def)
  have k: "task_id sms_task = ''u2''" "run_at sms_task = ''2024-01-01T00:00:00Z''"
    "writes (calm [sms_task] []) = []" "text_of (calm [sms_task] []) (JStr ''sms'') = ''sms''"
    by (simp_all add: sms_task_def message_task_def calm_def text_of_def)
  obtain w' where "execute_task sms_task (calm [sms_task] []) = (Inr (), w')"
    "writes w' = writes (calm [sms_task] []) @
             [UpdateItem (task_id sms_task) (run_at sms_task) ''running'' None,
              UpdateItem (task_id sms_task) (run_at sms_task) ''failed''
                (Some (''Unsupported action type: '' @ text_of (calm [sms_task] []) (JStr ''sms'')))]"
    using unsupported_action_fails_once [OF a p nw nm ok, of "[]"] by blast
  then show ?thesis
    using a p nw nm ok k by simp
qed

text \<open>
  C10. The claim: absent store errors, every task of action \<^verbatim>\<open>message\<close> that the executor
  picks up ends the tick completed. The dispatch of a message does always succeed, but
  the code at a due message task with recurrence \<^verbatim>\<open>daily\<close> and \<open>run_at\<close>
  2024-01-31T10:00:00Z, with a table that never fails, ends the tick with the task
  failed: the error of the recurrence expansion is recorded on the task itself.
\<close>

theorem message_task_ends_failed:
  "statusCode (fst (handler (calm [message_task ''a'' ''2024-01-31T10:00:00Z'' (Some ''daily'')] []))) = 200 \<and>
   map (\<lambda>x. (status x, error_message x))
     (table (snd (handler (calm [message_task ''a'' ''2024-01-31T10:00:00Z'' (Some ''daily'')] [])))) =
     [(''failed'', Some ''day is out of range for month'')]"
  by (simp add: model_defs example_defs)

end
